theory Spec2Isabelle
  imports Complex_Main "HOL-Library.Multiset"
begin

section \<open>JavaScript strings\<close>

text \<open>
  A JavaScript string is a sequence of UTF-16 code units. The messages of this program
  mix Basic Latin with Hangul syllables (each one code unit), so a string is modelled
  as the list of its code units; \<open>ascii\<close> embeds a Basic Latin literal and the Hangul
  parts are written as their code units in hexadecimal.
\<close>

type_synonym jsstring = "nat list"

definition ascii :: "string \<Rightarrow> jsstring" where
  "ascii s = map of_char s"

text \<open>\<open>s.startsWith(p)\<close> and \<open>s.includes(sub)\<close>.\<close>

fun starts_with :: "jsstring \<Rightarrow> jsstring \<Rightarrow> bool" where
  "starts_with s [] = True"
| "starts_with [] (p # ps) = False"
| "starts_with (c # cs) (p # ps) = (c = p \<and> starts_with cs ps)"

fun js_includes :: "jsstring \<Rightarrow> jsstring \<Rightarrow> bool" where
  "js_includes [] sub = (sub = [])"
| "js_includes (c # cs) sub = (starts_with (c # cs) sub \<or> js_includes cs sub)"

text \<open>
  \<open>String.prototype.trim\<close> removes the ECMAScript WhiteSpace and LineTerminator code
  points from both ends: TAB, LF, VT, FF, CR, SP, NBSP, U+1680, U+2000..U+200A, U+2028,
  U+2029, U+202F, U+205F, U+3000 and U+FEFF.
\<close>

definition is_js_whitespace :: "nat \<Rightarrow> bool" where
  "is_js_whitespace c =
     (c = 0x09 \<or> c = 0x0A \<or> c = 0x0B \<or> c = 0x0C \<or> c = 0x0D \<or> c = 0x20 \<or> c = 0xA0 \<or>
      c = 0x1680 \<or> (0x2000 \<le> c \<and> c \<le> 0x200A) \<or> c = 0x2028 \<or> c = 0x2029 \<or>
      c = 0x202F \<or> c = 0x205F \<or> c = 0x3000 \<or> c = 0xFEFF)"

definition trim :: "jsstring \<Rightarrow> jsstring" where
  "trim s = rev (dropWhile is_js_whitespace (rev (dropWhile is_js_whitespace s)))"

text \<open>
  \<open>String.prototype.toLowerCase\<close> follows the Unicode case mappings. The functions that
  use it take it as the parameter \<open>lc\<close>, so that what is proved of them holds for the real
  mapping; \<open>lower_ascii\<close> is the mapping on strings of Basic Latin and Hangul (Hangul has
  no case), which is what the messages of this program are made of.
\<close>

definition lower_ascii :: "jsstring \<Rightarrow> jsstring" where
  "lower_ascii s = map (\<lambda>c. if 0x41 \<le> c \<and> c \<le> 0x5A then c + 0x20 else c) s"

section \<open>Thrown values\<close>

text \<open>
  What a \<open>throw\<close> carries and a \<open>catch\<close> receives: an \<open>Error\<close> object with its \<open>name\<close> and
  \<open>message\<close>, or a value that is not an \<open>Error\<close>, kept as the string \<open>String(value)\<close>
  (the only thing the program reads from it).
\<close>

datatype thrown =
    JsError (name_of: jsstring) (message_of: jsstring)
  | NonError (stringified: jsstring)

text \<open>\<open>new Error(msg)\<close>: the name of a plain \<open>Error\<close> is "Error".\<close>

definition new_Error :: "jsstring \<Rightarrow> thrown" where
  "new_Error msg = JsError (ascii ''Error'') msg"

text \<open>\<open>String(error)\<close>; for an \<open>Error\<close> object this is \<open>Error.prototype.toString\<close>.\<close>

fun String_of :: "thrown \<Rightarrow> jsstring" where
  "String_of (NonError s) = s"
| "String_of (JsError n m) =
     (if n = [] then m else if m = [] then n else n @ ascii '': '' @ m)"

text \<open>\<open>error instanceof Error ? error : new Error(String(error))\<close>.\<close>

fun as_Error :: "thrown \<Rightarrow> thrown" where
  "as_Error (JsError n m) = JsError n m"
| "as_Error (NonError s) = new_Error s"

section \<open>lib/utils/error-handler.ts\<close>

datatype ErrorType = NETWORK | API | AUTH | VALIDATION | NOT_FOUND | SERVER | UNKNOWN

record ErrorInfo =
  etype :: ErrorType
  message :: jsstring
  userMessage :: jsstring
  canRetry :: bool
  originalError :: "thrown option"

text \<open>
  \<open>getErrorType\<close>: the chain of tests on the lower-cased name and message, in the
  source's order. The Hangul needles are, in order of appearance: "injeung"
  (authentication), "api ki" (API key), "api ereo" (API error), "api hochul" (API call),
  "pilsu parameter" (mandatory parameter), "chajeul su eops" (cannot find),
  "jonjaehaji anh" (does not exist), "seobeo ereo" (server error).
\<close>

fun getErrorType :: "(jsstring \<Rightarrow> jsstring) \<Rightarrow> thrown \<Rightarrow> ErrorType" where
  "getErrorType lc (NonError s) = UNKNOWN"
| "getErrorType lc (JsError n m) =
     (let message = lc m; name = lc n in
      if name = ascii ''networkerror'' \<or>
         name = ascii ''typeerror'' \<or>
         js_includes message (ascii ''network'') \<or>
         js_includes message (ascii ''fetch'') \<or>
         js_includes message (ascii ''failed to fetch'') \<or>
         js_includes message (ascii ''network request failed'')
      then NETWORK
      else if js_includes message ([0xC778, 0xC99D]) \<or>
         js_includes message (ascii ''api '' @ [0xD0A4]) \<or>
         js_includes message (ascii ''authentication'') \<or>
         js_includes message (ascii ''unauthorized'') \<or>
         js_includes message (ascii ''forbidden'')
      then AUTH
      else if js_includes message (ascii ''api '' @ [0xC5D0, 0xB7EC]) \<or>
         js_includes message (ascii ''api '' @ [0xD638, 0xCD9C]) \<or>
         js_includes message (ascii ''resultcode'') \<or>
         js_includes message (ascii ''service_key'')
      then API
      else if js_includes message ([0xD544, 0xC218] @ ascii '' '' @ [0xD30C, 0xB77C, 0xBBF8,
        0xD130]) \<or>
         js_includes message (ascii ''validation'') \<or>
         js_includes message (ascii ''invalid'')
      then VALIDATION
      else if js_includes message (ascii ''not found'') \<or>
         js_includes message ([0xCC3E, 0xC744] @ ascii '' '' @ [0xC218] @ ascii '' ''
           @ [0xC5C6]) \<or>
         js_includes message ([0xC874, 0xC7AC, 0xD558, 0xC9C0] @ ascii '' '' @ [0xC54A])
      then NOT_FOUND
      else if js_includes message ([0xC11C, 0xBC84] @ ascii '' '' @ [0xC5D0, 0xB7EC]) \<or>
         js_includes message (ascii ''server error'') \<or>
         js_includes message (ascii ''500'') \<or>
         js_includes message (ascii ''502'') \<or>
         js_includes message (ascii ''503'')
      then SERVER
      else UNKNOWN)"

text \<open>The user-facing messages of \<open>getUserFriendlyMessage\<close>, one per \<open>case\<close>.\<close>

definition user_msg_network :: jsstring where
  "user_msg_network = [0xB124, 0xD2B8, 0xC6CC, 0xD06C] @ ascii '' '' @ [0xC5F0, 0xACB0, 0xC5D0]
    @ ascii '' '' @ [0xBB38, 0xC81C, 0xAC00] @ ascii '' '' @ [0xC788, 0xC2B5, 0xB2C8, 0xB2E4]
    @ ascii ''. '' @ [0xC778, 0xD130, 0xB137] @ ascii '' '' @ [0xC5F0, 0xACB0, 0xC744]
    @ ascii '' '' @ [0xD655, 0xC778, 0xD558, 0xACE0] @ ascii '' '' @ [0xB2E4, 0xC2DC]
    @ ascii '' '' @ [0xC2DC, 0xB3C4, 0xD574, 0xC8FC, 0xC138, 0xC694] @ ascii ''.''"

definition user_msg_auth_key :: jsstring where
  "user_msg_auth_key = ascii ''API '' @ [0xC778, 0xC99D, 0xC5D0] @ ascii '' '' @ [0xC2E4,
    0xD328, 0xD588, 0xC2B5, 0xB2C8, 0xB2E4] @ ascii ''. '' @ [0xAD00, 0xB9AC, 0xC790, 0xC5D0,
    0xAC8C] @ ascii '' '' @ [0xBB38, 0xC758, 0xD574, 0xC8FC, 0xC138, 0xC694] @ ascii ''.''"

definition user_msg_auth :: jsstring where
  "user_msg_auth = [0xC778, 0xC99D, 0xC5D0] @ ascii '' '' @ [0xC2E4, 0xD328, 0xD588, 0xC2B5,
    0xB2C8, 0xB2E4] @ ascii ''. '' @ [0xB2E4, 0xC2DC] @ ascii '' '' @ [0xB85C, 0xADF8, 0xC778,
    0xD574, 0xC8FC, 0xC138, 0xC694] @ ascii ''.''"

definition user_msg_rate_limit :: jsstring where
  "user_msg_rate_limit = ascii ''API '' @ [0xD638, 0xCD9C] @ ascii '' '' @ [0xC81C, 0xD55C,
    0xC5D0] @ ascii '' '' @ [0xB3C4, 0xB2EC, 0xD588, 0xC2B5, 0xB2C8, 0xB2E4] @ ascii ''. ''
    @ [0xC7A0, 0xC2DC] @ ascii '' '' @ [0xD6C4] @ ascii '' '' @ [0xB2E4, 0xC2DC] @ ascii '' ''
    @ [0xC2DC, 0xB3C4, 0xD574, 0xC8FC, 0xC138, 0xC694] @ ascii ''.''"

definition user_msg_server :: jsstring where
  "user_msg_server = [0xC11C, 0xBC84, 0xC5D0] @ ascii '' '' @ [0xC77C, 0xC2DC, 0xC801, 0xC778]
    @ ascii '' '' @ [0xBB38, 0xC81C, 0xAC00] @ ascii '' '' @ [0xBC1C, 0xC0DD, 0xD588, 0xC2B5,
    0xB2C8, 0xB2E4] @ ascii ''. '' @ [0xC7A0, 0xC2DC] @ ascii '' '' @ [0xD6C4] @ ascii '' ''
    @ [0xB2E4, 0xC2DC] @ ascii '' '' @ [0xC2DC, 0xB3C4, 0xD574, 0xC8FC, 0xC138, 0xC694]
    @ ascii ''.''"

definition user_msg_api :: jsstring where
  "user_msg_api = [0xB370, 0xC774, 0xD130, 0xB97C] @ ascii '' '' @ [0xBD88, 0xB7EC, 0xC624,
    0xB294] @ ascii '' '' @ [0xC911] @ ascii '' '' @ [0xC624, 0xB958, 0xAC00] @ ascii '' ''
    @ [0xBC1C, 0xC0DD, 0xD588, 0xC2B5, 0xB2C8, 0xB2E4] @ ascii ''. '' @ [0xC7A0, 0xC2DC]
    @ ascii '' '' @ [0xD6C4] @ ascii '' '' @ [0xB2E4, 0xC2DC] @ ascii '' '' @ [0xC2DC, 0xB3C4,
    0xD574, 0xC8FC, 0xC138, 0xC694] @ ascii ''.''"

definition user_msg_validation :: jsstring where
  "user_msg_validation = [0xC785, 0xB825, 0xD55C] @ ascii '' '' @ [0xC815, 0xBCF4, 0xB97C]
    @ ascii '' '' @ [0xD655, 0xC778, 0xD574, 0xC8FC, 0xC138, 0xC694] @ ascii ''. '' @ [0xD544,
    0xC218] @ ascii '' '' @ [0xD56D, 0xBAA9, 0xC774] @ ascii '' '' @ [0xB204, 0xB77D, 0xB418,
    0xC5C8, 0xAC70, 0xB098] @ ascii '' '' @ [0xD615, 0xC2DD, 0xC774] @ ascii '' '' @ [0xC62C,
    0xBC14, 0xB974, 0xC9C0] @ ascii '' '' @ [0xC54A, 0xC2B5, 0xB2C8, 0xB2E4] @ ascii ''.''"

definition user_msg_not_found :: jsstring where
  "user_msg_not_found = [0xC694, 0xCCAD, 0xD558, 0xC2E0] @ ascii '' '' @ [0xC815, 0xBCF4,
    0xB97C] @ ascii '' '' @ [0xCC3E, 0xC744] @ ascii '' '' @ [0xC218] @ ascii '' '' @ [0xC5C6,
    0xC2B5, 0xB2C8, 0xB2E4] @ ascii ''.''"

definition user_msg_unknown :: jsstring where
  "user_msg_unknown = [0xC608, 0xC0C1, 0xCE58] @ ascii '' '' @ [0xBABB, 0xD55C] @ ascii '' ''
    @ [0xC624, 0xB958, 0xAC00] @ ascii '' '' @ [0xBC1C, 0xC0DD, 0xD588, 0xC2B5, 0xB2C8, 0xB2E4]
    @ ascii ''. '' @ [0xC7A0, 0xC2DC] @ ascii '' '' @ [0xD6C4] @ ascii '' '' @ [0xB2E4, 0xC2DC]
    @ ascii '' '' @ [0xC2DC, 0xB3C4, 0xD574, 0xC8FC, 0xC138, 0xC694] @ ascii ''.''"

text \<open>
  \<open>getUserFriendlyMessage(error, errorType?)\<close>: \<open>errorType || getErrorType(error)\<close> takes
  the given type when there is one (every member of the enum is a non-empty string). The
  tests inside the \<open>AUTH\<close> and \<open>API\<close> cases read the message as it is, not lower-cased;
  their needles are "API ki" (API key), "hochul jehan" (call limit) and "seobeo ereo"
  (server error).
\<close>

definition getUserFriendlyMessage ::
  "(jsstring \<Rightarrow> jsstring) \<Rightarrow> thrown \<Rightarrow> ErrorType option \<Rightarrow> jsstring" where
  "getUserFriendlyMessage lc error errorType =
     (let type = (case errorType of Some t \<Rightarrow> t | None \<Rightarrow> getErrorType lc error);
          errorMessage = (case error of JsError n m \<Rightarrow> m | NonError s \<Rightarrow> String_of error)
      in case type of
           NETWORK \<Rightarrow> user_msg_network
         | AUTH \<Rightarrow>
             if js_includes errorMessage (ascii ''API ''
               @ [0xD0A4]) then user_msg_auth_key else user_msg_auth
         | API \<Rightarrow>
             if js_includes errorMessage ([0xD638, 0xCD9C] @ ascii '' '' @ [0xC81C,
               0xD55C]) then user_msg_rate_limit
             else if js_includes errorMessage ([0xC11C, 0xBC84] @ ascii '' '' @ [0xC5D0,
               0xB7EC]) then user_msg_server
             else user_msg_api
         | VALIDATION \<Rightarrow> user_msg_validation
         | NOT_FOUND \<Rightarrow> user_msg_not_found
         | SERVER \<Rightarrow> user_msg_server
         | UNKNOWN \<Rightarrow> user_msg_unknown)"

text \<open>
  \<open>getErrorInfo\<close>. \<open>originalError?.message || String(error)\<close> falls back to
  \<open>String(error)\<close> when the value is not an \<open>Error\<close> or its message is empty.
\<close>

definition getErrorInfo :: "(jsstring \<Rightarrow> jsstring) \<Rightarrow> thrown \<Rightarrow> ErrorInfo" where
  "getErrorInfo lc error =
     (let type = getErrorType lc error;
          originalError = (case error of JsError n m \<Rightarrow> Some error | NonError s \<Rightarrow> None);
          userMessage = getUserFriendlyMessage lc error (Some type);
          canRetry = (type = NETWORK \<or> type = API \<or> type = SERVER)
      in \<lparr> etype = type,
           message = (case originalError of
                        Some (JsError n m) \<Rightarrow> if m \<noteq> [] then m else String_of error
                      | _ \<Rightarrow> String_of error),
           userMessage = userMessage,
           canRetry = canRetry,
           originalError = originalError \<rparr>)"

definition formatError :: "(jsstring \<Rightarrow> jsstring) \<Rightarrow> thrown \<Rightarrow> jsstring" where
  "formatError lc error = getUserFriendlyMessage lc error None"

definition isRetryableError :: "(jsstring \<Rightarrow> jsstring) \<Rightarrow> thrown \<Rightarrow> bool" where
  "isRetryableError lc error = canRetry (getErrorInfo lc error)"

text \<open>The message \<open>addBookmark\<close> throws for a duplicate: "imi bukmakeuhan
  gwangwangjiimnida." (this place is already bookmarked).\<close>

definition msg_duplicate :: jsstring where
  "msg_duplicate = [0xC774, 0xBBF8] @ ascii '' '' @ [0xBD81, 0xB9C8, 0xD06C, 0xD55C]
    @ ascii '' '' @ [0xAD00, 0xAD11, 0xC9C0, 0xC785, 0xB2C8, 0xB2E4] @ ascii ''.''"

section \<open>lib/api/tour-api.ts: the Retry Executor\<close>

text \<open>
  The sources hold two copies of \<open>tour-api.ts\<close>. Their \<open>fetchTourAPI\<close> have the same
  \<open>for\<close> loop, the same tests on the status and the same delay expression; they differ in
  the messages they throw, in the test of the \<open>catch\<close> block that stops the retries, and in
  what is thrown once the attempts are used up. The second copy reports through
  \<open>error-handler.ts\<close>. Both are modelled, from the loop on: \<open>getApiKey\<close> and the building of
  the URL come before it, and what \<open>logError\<close> prints is left out.

  One \<open>fetch\<close> ends in one of these ways: it throws (a network failure), or it gives a
  response with a status and a status text, whose body either fails to parse
  (\<open>response.json()\<close> throws) or parses to data with or without the provider's header
  (\<open>resultCode\<close>, \<open>resultMsg\<close>).
\<close>

datatype 'a api_body =
    JsonThrows thrown
  | Body (header: "(jsstring \<times> jsstring) option") (payload: 'a)

datatype 'a fetched =
    FetchThrows thrown
  | Response (status: nat) (statusText: jsstring) (body: "'a api_body")

text \<open>\<open>response.ok\<close>: the status is in the range 200..299.\<close>

definition response_ok :: "nat \<Rightarrow> bool" where
  "response_ok st = (200 \<le> st \<and> st \<le> 299)"

text \<open>A number in a template literal: its decimal digits.\<close>

fun show_nat :: "nat \<Rightarrow> jsstring" where
  "show_nat n = (if n < 10 then [0x30 + n] else show_nat (n div 10) @ [0x30 + n mod 10])"

declare show_nat.simps [simp del]

text \<open>
  \<open>Math.min(1000 * Math.pow(2, attempt - 1), 5000)\<close>, computed after attempt number
  \<open>attempt\<close> has failed. The power is exact in floating point up to the exponent 1023 and
  infinite beyond, where the minimum is 5000 as it is for the exact power.
\<close>

definition backoff_delay :: "nat \<Rightarrow> nat" where
  "backoff_delay attempt = min (1000 * 2 ^ (attempt - 1)) 5000"

text \<open>
  What the loop does to the outside, in order: the \<open>fetch\<close> of attempt \<open>n\<close>, and a
  \<open>setTimeout\<close> wait of \<open>d\<close> milliseconds.
\<close>

datatype event = Fetched nat | Slept nat

text \<open>
  The \<open>for\<close> loop of both copies, from the state it has when it tests
  \<open>attempt <= retries\<close>: the attempt number, \<open>lastError\<close> and the events so far.
  \<^item> \<open>try_block attempt\<close> is how the \<open>try\<close> block of that attempt ends: the data it returns
    or what it throws;
  \<^item> the \<open>catch\<close> block sets \<open>lastError\<close> to
    \<open>error instanceof Error ? error : new Error(String(error))\<close>, throws that when
    \<open>terminal error\<close> holds (the first copy throws \<open>error\<close> itself, and only when it is an
    \<open>Error\<close>, which is the same value), and otherwise waits and continues when
    \<open>attempt < retries\<close>;
  \<^item> \<open>final lastError\<close> is what the statement after the loop throws.
  \<open>retries\<close> is a count (the callers all leave it at its default, 3). The result is the
  data returned or the error thrown, with the events.
\<close>

function retry_loop ::
  "(nat \<Rightarrow> thrown + 'a) \<Rightarrow> (thrown \<Rightarrow> bool) \<Rightarrow> (thrown option \<Rightarrow> thrown) \<Rightarrow>
   nat \<Rightarrow> nat \<Rightarrow> thrown option \<Rightarrow> event list \<Rightarrow> (thrown + 'a) \<times> event list" where
  "retry_loop try_block terminal final retries attempt lastError evs =
     (if attempt \<le> retries then
        (case try_block attempt of
           Inr data \<Rightarrow> (Inr data, evs @ [Fetched attempt])
         | Inl error \<Rightarrow>
             if terminal error then (Inl (as_Error error), evs @ [Fetched attempt])
             else if attempt < retries then
               retry_loop try_block terminal final retries (attempt + 1) (Some (as_Error error))
                 (evs @ [Fetched attempt, Slept (backoff_delay attempt)])
             else
               retry_loop try_block terminal final retries (attempt + 1) (Some (as_Error error))
                 (evs @ [Fetched attempt]))
      else (Inl (final lastError), evs))"
  by pat_completeness auto
termination
  by (relation "measure (\<lambda>(try_block, terminal, final, retries, attempt, lastError, evs).
                  retries + 1 - attempt)")
     auto

declare retry_loop.simps [simp del]

subsection \<open>The first copy\<close>

text \<open>
  The error thrown for a response that is not \<open>ok\<close>: "API injeung silpae (status): API
  kireul hwaginhaejuseyo." (API authentication failed: check the API key), "API hochul
  jehan chogwa: jamsi hu dasi sidohaejuseyo. (sido attempt/retries)" (API call limit
  exceeded: try again in a moment), "seobeo ereo (status): ..." (server error), and
  "HTTP ereo (status): statusText".
\<close>

definition http_error_plain :: "nat \<Rightarrow> jsstring \<Rightarrow> nat \<Rightarrow> nat \<Rightarrow> thrown" where
  "http_error_plain st txt attempt retries =
     (if st = 401 \<or> st = 403 then
        new_Error (ascii ''API '' @ [0xC778, 0xC99D] @ ascii '' '' @ [0xC2E4, 0xD328]
          @ ascii '' ('' @ show_nat st @ ascii ''): API '' @ [0xD0A4, 0xB97C] @ ascii '' ''
          @ [0xD655, 0xC778, 0xD574, 0xC8FC, 0xC138, 0xC694] @ ascii ''.'')
      else if st = 429 then
        new_Error (ascii ''API '' @ [0xD638, 0xCD9C] @ ascii '' '' @ [0xC81C, 0xD55C]
          @ ascii '' '' @ [0xCD08, 0xACFC] @ ascii '': '' @ [0xC7A0, 0xC2DC] @ ascii '' ''
          @ [0xD6C4] @ ascii '' '' @ [0xB2E4, 0xC2DC] @ ascii '' '' @ [0xC2DC, 0xB3C4, 0xD574,
          0xC8FC, 0xC138, 0xC694] @ ascii ''. ('' @ [0xC2DC, 0xB3C4] @ ascii '' ''
          @ show_nat attempt @
                   ascii ''/'' @ show_nat retries @ ascii '')'')
      else if st \<ge> 500 then
        new_Error ([0xC11C, 0xBC84] @ ascii '' '' @ [0xC5D0, 0xB7EC] @ ascii '' (''
          @ show_nat st @ ascii ''): '' @ [0xC7A0, 0xC2DC] @ ascii '' '' @ [0xD6C4]
          @ ascii '' '' @ [0xB2E4, 0xC2DC] @ ascii '' '' @ [0xC2DC, 0xB3C4, 0xD574, 0xC8FC,
          0xC138, 0xC694] @ ascii ''. ('' @ [0xC2DC, 0xB3C4] @ ascii '' '' @
                   show_nat attempt @ ascii ''/'' @ show_nat retries @ ascii '')'')
      else new_Error (ascii ''HTTP '' @ [0xC5D0, 0xB7EC] @ ascii '' ('' @ show_nat st
        @ ascii ''): '' @ txt))"

text \<open>
  The error thrown for a header whose \<open>resultCode\<close> is not "0000": "API kiga
  deungnokdoeji anatseumnida." (the API key is not registered), "yuhyohaji aneun API
  kiimnida." (invalid API key), "pilsu parameter oryu: resultMsg" (mandatory parameter
  error), and "API ereo (resultCode): resultMsg".
\<close>

definition header_error_plain :: "jsstring \<Rightarrow> jsstring \<Rightarrow> thrown" where
  "header_error_plain resultCode resultMsg =
     (if resultCode = ascii ''SERVICE_KEY_NOT_REGISTERED''
        then new_Error (ascii ''API '' @ [0xD0A4, 0xAC00] @ ascii '' '' @ [0xB4F1, 0xB85D,
          0xB418, 0xC9C0] @ ascii '' '' @ [0xC54A, 0xC558, 0xC2B5, 0xB2C8, 0xB2E4]
          @ ascii ''.'')
      else if resultCode = ascii ''SERVICE_KEY_IS_NOT_VALID''
        then new_Error ([0xC720, 0xD6A8, 0xD558, 0xC9C0] @ ascii '' '' @ [0xC54A, 0xC740]
          @ ascii '' API '' @ [0xD0A4, 0xC785, 0xB2C8, 0xB2E4] @ ascii ''.'')
      else if resultCode = ascii ''NO_MANDATORY_REQUEST_PARAMETERS_ERROR''
        then new_Error ([0xD544, 0xC218] @ ascii '' '' @ [0xD30C, 0xB77C, 0xBBF8, 0xD130]
          @ ascii '' '' @ [0xC624, 0xB958] @ ascii '': '' @ resultMsg)
      else new_Error (ascii ''API '' @ [0xC5D0, 0xB7EC] @ ascii '' ('' @ resultCode
        @ ascii ''): '' @ resultMsg))"

fun try_once_plain :: "nat \<Rightarrow> nat \<Rightarrow> 'a fetched \<Rightarrow> thrown + 'a" where
  "try_once_plain attempt retries (FetchThrows e) = Inl e"
| "try_once_plain attempt retries (Response st txt b) =
     (if \<not> response_ok st then Inl (http_error_plain st txt attempt retries)
      else case b of
             JsonThrows e \<Rightarrow> Inl e
           | Body None d \<Rightarrow> Inr d
           | Body (Some (resultCode, resultMsg)) d \<Rightarrow>
               if resultCode \<noteq> ascii ''0000'' then Inl (header_error_plain resultCode resultMsg)
               else Inr d)"

text \<open>
  The test that stops the retries: an \<open>Error\<close> whose message contains "injeung"
  (authentication), "API ki" (API key) or "pilsu parameter" (mandatory parameter).
\<close>

fun is_terminal_plain :: "thrown \<Rightarrow> bool" where
  "is_terminal_plain (NonError v) = False"
| "is_terminal_plain (JsError n m) =
     (js_includes m ([0xC778, 0xC99D]) \<or> js_includes m (ascii ''API ''
       @ [0xD0A4]) \<or> js_includes m ([0xD544, 0xC218] @ ascii '' '' @ [0xD30C, 0xB77C,
       0xBBF8, 0xD130]))"

text \<open>\<open>throw lastError || new Error("API hochul silpae")\<close> (API call failed).\<close>

definition final_plain :: "thrown option \<Rightarrow> thrown" where
  "final_plain lastError =
     (case lastError of Some e \<Rightarrow> e | None \<Rightarrow> new_Error (ascii ''API ''
       @ [0xD638, 0xCD9C] @ ascii '' '' @ [0xC2E4, 0xD328]))"

definition fetchTourAPI_plain ::
  "(nat \<Rightarrow> 'a fetched) \<Rightarrow> nat \<Rightarrow> (thrown + 'a) \<times> event list" where
  "fetchTourAPI_plain env retries =
     retry_loop (\<lambda>attempt. try_once_plain attempt retries (env attempt))
       is_terminal_plain final_plain retries 1 None []"

subsection \<open>The second copy\<close>

text \<open>
  The messages thrown inside the \<open>try\<close> block: "API injeung silpae: API kireul
  hwaginhaejuseyo." (API authentication failed: check the API key), "API hochul jehan
  chogwa: ..." (API call limit exceeded), "seobeo ereo: ..." (server error), "deiteoreul
  bulleooneun jung oryuga balsaenghaetseumnida." (an error occurred while loading the
  data), and for the provider's code NO_MANDATORY_REQUEST_PARAMETERS_ERROR "... pilsu
  hangmogi nurakdoeeotseumnida." (a mandatory item is missing).
\<close>

definition msg_api_auth_failed :: jsstring where
  "msg_api_auth_failed = ascii ''API '' @ [0xC778, 0xC99D] @ ascii '' '' @ [0xC2E4, 0xD328]
    @ ascii '': API '' @ [0xD0A4, 0xB97C] @ ascii '' '' @ [0xD655, 0xC778, 0xD574, 0xC8FC,
    0xC138, 0xC694] @ ascii ''.''"

definition msg_rate_limit :: jsstring where
  "msg_rate_limit = ascii ''API '' @ [0xD638, 0xCD9C] @ ascii '' '' @ [0xC81C, 0xD55C]
    @ ascii '' '' @ [0xCD08, 0xACFC] @ ascii '': '' @ [0xC7A0, 0xC2DC] @ ascii '' '' @ [0xD6C4]
    @ ascii '' '' @ [0xB2E4, 0xC2DC] @ ascii '' '' @ [0xC2DC, 0xB3C4, 0xD574, 0xC8FC, 0xC138,
    0xC694] @ ascii ''.''"

definition msg_server_error :: jsstring where
  "msg_server_error = [0xC11C, 0xBC84] @ ascii '' '' @ [0xC5D0, 0xB7EC] @ ascii '': ''
    @ [0xC7A0, 0xC2DC] @ ascii '' '' @ [0xD6C4] @ ascii '' '' @ [0xB2E4, 0xC2DC] @ ascii '' ''
    @ [0xC2DC, 0xB3C4, 0xD574, 0xC8FC, 0xC138, 0xC694] @ ascii ''.''"

definition msg_load_failed :: jsstring where
  "msg_load_failed = [0xB370, 0xC774, 0xD130, 0xB97C] @ ascii '' '' @ [0xBD88, 0xB7EC, 0xC624,
    0xB294] @ ascii '' '' @ [0xC911] @ ascii '' '' @ [0xC624, 0xB958, 0xAC00] @ ascii '' ''
    @ [0xBC1C, 0xC0DD, 0xD588, 0xC2B5, 0xB2C8, 0xB2E4] @ ascii ''.''"

definition msg_missing_param :: jsstring where
  "msg_missing_param = [0xC785, 0xB825, 0xD55C] @ ascii '' '' @ [0xC815, 0xBCF4, 0xB97C]
    @ ascii '' '' @ [0xD655, 0xC778, 0xD574, 0xC8FC, 0xC138, 0xC694] @ ascii ''. '' @ [0xD544,
    0xC218] @ ascii '' '' @ [0xD56D, 0xBAA9, 0xC774] @ ascii '' '' @ [0xB204, 0xB77D, 0xB418,
    0xC5C8, 0xC2B5, 0xB2C8, 0xB2E4] @ ascii ''.''"

text \<open>The error thrown for a response that is not \<open>ok\<close>.\<close>

definition http_error :: "nat \<Rightarrow> thrown" where
  "http_error st =
     (if st = 401 \<or> st = 403 then new_Error msg_api_auth_failed
      else if st = 429 then new_Error msg_rate_limit
      else if st \<ge> 500 then new_Error msg_server_error
      else new_Error msg_load_failed)"

text \<open>The error thrown for a header whose \<open>resultCode\<close> is not "0000".\<close>

definition header_error :: "(jsstring \<Rightarrow> jsstring) \<Rightarrow> jsstring \<Rightarrow> jsstring \<Rightarrow> thrown" where
  "header_error lc resultCode resultMsg =
     (if resultCode = ascii ''SERVICE_KEY_NOT_REGISTERED'' then new_Error user_msg_auth_key
      else if resultCode = ascii ''SERVICE_KEY_IS_NOT_VALID'' then new_Error user_msg_auth_key
      else if resultCode = ascii ''NO_MANDATORY_REQUEST_PARAMETERS_ERROR''
        then new_Error msg_missing_param
      else new_Error (formatError lc
             (new_Error (ascii ''API '' @ [0xC5D0, 0xB7EC] @ ascii '' ('' @ resultCode
               @ ascii ''): '' @ resultMsg))))"

text \<open>The body of the \<open>try\<close> block of one attempt: the data, or what it throws.\<close>

fun try_once :: "(jsstring \<Rightarrow> jsstring) \<Rightarrow> 'a fetched \<Rightarrow> thrown + 'a" where
  "try_once lc (FetchThrows e) = Inl e"
| "try_once lc (Response st txt b) =
     (if \<not> response_ok st then Inl (http_error st)
      else case b of
             JsonThrows e \<Rightarrow> Inl e
           | Body None d \<Rightarrow> Inr d
           | Body (Some (resultCode, resultMsg)) d \<Rightarrow>
               if resultCode \<noteq> ascii ''0000'' then Inl (header_error lc resultCode resultMsg)
               else Inr d)"

text \<open>
  The test that stops the retries, on \<open>caughtError\<close>: the message contains "injeung"
  (authentication), "API ki" (API key), "pilsu" (mandatory) or "nurak" (missing).
\<close>

definition is_terminal :: "thrown \<Rightarrow> bool" where
  "is_terminal error =
     (let caughtError = as_Error error in
      js_includes (message_of caughtError) ([0xC778, 0xC99D]) \<or>
      js_includes (message_of caughtError) (ascii ''API '' @ [0xD0A4]) \<or>
      js_includes (message_of caughtError) ([0xD544, 0xC218]) \<or>
      js_includes (message_of caughtError) ([0xB204, 0xB77D]))"

text \<open>
  After the loop: \<open>lastError\<close>, when there is one, goes through \<open>formatError\<close> into a new
  \<open>Error\<close>; otherwise the "error while loading the data" message is thrown.
\<close>

definition final_formatted :: "(jsstring \<Rightarrow> jsstring) \<Rightarrow> thrown option \<Rightarrow> thrown" where
  "final_formatted lc lastError =
     (case lastError of
        Some e \<Rightarrow> new_Error (formatError lc e)
      | None \<Rightarrow> new_Error msg_load_failed)"

definition fetchTourAPI ::
  "(jsstring \<Rightarrow> jsstring) \<Rightarrow> (nat \<Rightarrow> 'a fetched) \<Rightarrow> nat \<Rightarrow> (thrown + 'a) \<times> event list" where
  "fetchTourAPI lc env retries =
     retry_loop (\<lambda>attempt. try_once lc (env attempt)) is_terminal (final_formatted lc)
       retries 1 None []"

subsection \<open>The backoff of the specification\<close>

text \<open>
  The backoff as the specification words it: the delay before attempt \<open>n\<close>, for \<open>n\<close> from
  2 on, is \<open>min(1000 * 2^(n-2), 5000)\<close> milliseconds; and the events of a run that makes
  \<open>m\<close> attempts under that rule.
\<close>

definition spec_delay_before :: "nat \<Rightarrow> nat" where
  "spec_delay_before n = min (1000 * 2 ^ (n - 2)) 5000"

definition spec_events :: "nat \<Rightarrow> event list" where
  "spec_events m =
     concat (map (\<lambda>n. if n \<ge> 2 then [Slept (spec_delay_before n), Fetched n] else [Fetched n])
                 [1 ..< m + 1])"

section \<open>The persisted store\<close>

text \<open>
  The store is the external database behind the Supabase client: two tables, which the
  Bookmark Gateway reads and writes with four queries. The model keeps a state of the
  tables and answers each query as the database does for the table declarations, without
  transport failures. Identifiers are the store's uuid values and timestamps are instants.

  The \<open>bookmarks\<close> table is the one the migration creates:
  \<^verbatim>\<open>id uuid default gen_random_uuid() primary key\<close>,
  \<^verbatim>\<open>user_id uuid not null references public.users(id) on delete cascade\<close>,
  \<^verbatim>\<open>content_id text not null\<close>,
  \<^verbatim>\<open>created_at timestamp with time zone default now() not null\<close>,
  \<^verbatim>\<open>constraint unique_user_bookmark unique(user_id, content_id)\<close>.
\<close>

type_synonym uuid = nat
type_synonym timestamp = int

record Bookmark =
  bookmark_id :: uuid
  user_id :: uuid
  content_id :: jsstring
  created_at :: timestamp

text \<open>
  Modelled from the spec: the \<open>users\<close> table, whose migration is not among the sources. The
  spec gives it an internal identifier (primary key) and an external-identity-provider
  identifier (unique, used for lookup); the code reads these two columns, as \<open>id\<close> and
  \<open>clerk_id\<close>.
\<close>

record user_row =
  users_id :: uuid
  clerk_id :: jsstring

text \<open>
  A state of the store; \<open>next_id\<close> is the identifier that \<open>gen_random_uuid()\<close> gives to the
  next row.
\<close>

record store =
  users :: "user_row list"
  bookmarks :: "Bookmark list"
  next_id :: uuid

text \<open>
  What a Supabase call resolves to: \<open>{ data, error }\<close>, each of them possibly \<open>null\<close>; an
  error carries the \<open>code\<close> and \<open>message\<close> the code reads.
\<close>

record pg_error =
  code :: jsstring
  pg_message :: jsstring

datatype 'a pg_response = PgResponse (data_of: "'a option") (error_of: "pg_error option")

text \<open>
  \<^verbatim>\<open>from("users").select("id").eq("clerk_id", clerkId).single()\<close>: the \<open>id\<close> of the one
  matching row; when the rows matching are none or several, \<open>single()\<close> gives the error
  PGRST116.
\<close>

definition users_select_id_single :: "store \<Rightarrow> jsstring \<Rightarrow> uuid pg_response" where
  "users_select_id_single db clerkId =
     (case filter (\<lambda>r. clerk_id r = clerkId) (users db) of
        [r] \<Rightarrow> PgResponse (Some (users_id r)) None
      | _ \<Rightarrow> PgResponse None
               (Some \<lparr> code = ascii ''PGRST116'',
                       pg_message = ascii ''JSON object requested, multiple (or no) rows returned'' \<rparr>))"

text \<open>
  \<^verbatim>\<open>from("bookmarks").select("*").eq("user_id", userId).order("created_at", { ascending: false })\<close>:
  the rows of the user, latest first. The database fixes no order among rows of equal
  \<open>created_at\<close>; the model keeps them in table order.
\<close>

definition bookmarks_select_by_user :: "store \<Rightarrow> uuid \<Rightarrow> Bookmark list pg_response" where
  "bookmarks_select_by_user db userId =
     PgResponse
       (Some (sort_key (\<lambda>b. - created_at b) (filter (\<lambda>b. user_id b = userId) (bookmarks db))))
       None"

text \<open>
  \<^verbatim>\<open>from("bookmarks").insert({ user_id, content_id }).select().single()\<close> at the instant
  \<open>now\<close>: a row with the same \<open>(user_id, content_id)\<close> violates \<open>unique_user_bookmark\<close>
  (SQLSTATE 23505), a \<open>user_id\<close> that is no \<open>users.id\<close> violates the foreign key (23503);
  otherwise the row is stored with its defaults and returned.
\<close>

definition has_bookmark :: "store \<Rightarrow> uuid \<Rightarrow> jsstring \<Rightarrow> bool" where
  "has_bookmark db userId contentId =
     list_ex (\<lambda>b. user_id b = userId \<and> content_id b = contentId) (bookmarks db)"

definition has_user :: "store \<Rightarrow> uuid \<Rightarrow> bool" where
  "has_user db userId = list_ex (\<lambda>r. users_id r = userId) (users db)"

definition bookmarks_insert ::
  "store \<Rightarrow> timestamp \<Rightarrow> uuid \<Rightarrow> jsstring \<Rightarrow> Bookmark pg_response \<times> store" where
  "bookmarks_insert db now userId contentId =
     (if has_bookmark db userId contentId then
        (PgResponse None
           (Some \<lparr> code = ascii ''23505'',
                   pg_message = ascii ''duplicate key value violates unique constraint unique_user_bookmark'' \<rparr>),
         db)
      else if \<not> has_user db userId then
        (PgResponse None
           (Some \<lparr> code = ascii ''23503'',
                   pg_message = ascii ''insert or update on table bookmarks violates foreign key constraint'' \<rparr>),
         db)
      else
        (let row = \<lparr> bookmark_id = next_id db, user_id = userId, content_id = contentId,
                       created_at = now \<rparr>
         in (PgResponse (Some row) None,
             db \<lparr> bookmarks := bookmarks db
               @ [row], next_id := next_id db + 1 \<rparr>)))"

text \<open>
  \<^verbatim>\<open>from("bookmarks").delete().eq("user_id", userId).eq("content_id", contentId)\<close>: the
  matching rows go, and deleting nothing is no error.
\<close>

definition bookmarks_delete :: "store \<Rightarrow> uuid \<Rightarrow> jsstring \<Rightarrow> unit pg_response \<times> store" where
  "bookmarks_delete db userId contentId =
     (PgResponse None None,
      db \<lparr> bookmarks :=
             filter (\<lambda>b. \<not> (user_id b = userId \<and> content_id b = contentId)) (bookmarks db) \<rparr>)"

text \<open>The constraint \<open>unique_user_bookmark\<close> as a property of a state of the store.\<close>

definition unique_user_bookmark :: "store \<Rightarrow> bool" where
  "unique_user_bookmark db = distinct (map (\<lambda>b. (user_id b, content_id b)) (bookmarks db))"

section \<open>lib/api/supabase-api.ts\<close>

text \<open>
  Each function awaits one call on the store and reads \<open>{ data, error }\<close>. Its outer
  \<open>try\<close>/\<open>catch\<close> logs and rethrows what it caught, so it changes nothing of the result.
\<close>

definition getSupabaseUserId :: "store \<Rightarrow> jsstring \<Rightarrow> thrown + uuid option" where
  "getSupabaseUserId supabase clerkId =
     (case users_select_id_single supabase clerkId of
        PgResponse data (Some error) \<Rightarrow>
          if code error = ascii ''PGRST116'' then Inr None
          else Inl (new_Error (ascii ''Failed to get Supabase user ID: '' @ pg_message error))
      | PgResponse data None \<Rightarrow> Inr data)"

definition getBookmarks :: "store \<Rightarrow> uuid \<Rightarrow> thrown + Bookmark list" where
  "getBookmarks supabase userId =
     (case bookmarks_select_by_user supabase userId of
        PgResponse data (Some error) \<Rightarrow>
          Inl (new_Error (ascii ''Failed to get bookmarks: '' @ pg_message error))
      | PgResponse data None \<Rightarrow> Inr (case data of Some rows \<Rightarrow> rows | None \<Rightarrow> []))"

text \<open>The message for data missing after an insert: "bukmakeu chuga hu deiteoreul
  gajyeool su eopseumnida." (cannot get the data after adding the bookmark).\<close>

definition msg_no_data_after_insert :: jsstring where
  "msg_no_data_after_insert = [0xBD81, 0xB9C8, 0xD06C] @ ascii '' '' @ [0xCD94, 0xAC00]
    @ ascii '' '' @ [0xD6C4] @ ascii '' '' @ [0xB370, 0xC774, 0xD130, 0xB97C] @ ascii '' ''
    @ [0xAC00, 0xC838, 0xC62C] @ ascii '' '' @ [0xC218] @ ascii '' '' @ [0xC5C6, 0xC2B5, 0xB2C8,
    0xB2E4] @ ascii ''.''"

definition addBookmark ::
  "store \<Rightarrow> timestamp \<Rightarrow> uuid \<Rightarrow> jsstring \<Rightarrow> (thrown + Bookmark) \<times> store" where
  "addBookmark supabase now userId contentId =
     (case bookmarks_insert supabase now userId contentId of
        (PgResponse data (Some error), supabase') \<Rightarrow>
          (if code error = ascii ''23505'' then Inl (new_Error msg_duplicate)
           else Inl (new_Error (ascii ''Failed to add bookmark: '' @ pg_message error)),
           supabase')
      | (PgResponse None None, supabase') \<Rightarrow> (Inl (new_Error msg_no_data_after_insert), supabase')
      | (PgResponse (Some row) None, supabase') \<Rightarrow> (Inr row, supabase'))"

record remove_result =
  success :: bool

definition removeBookmark ::
  "store \<Rightarrow> uuid \<Rightarrow> jsstring \<Rightarrow> (thrown + remove_result) \<times> store" where
  "removeBookmark supabase userId contentId =
     (case bookmarks_delete supabase userId contentId of
        (PgResponse data (Some error), supabase') \<Rightarrow>
          (Inl (new_Error (ascii ''Failed to remove bookmark: ''
            @ pg_message error)), supabase')
      | (PgResponse data None, supabase') \<Rightarrow> (Inr \<lparr> success = True \<rparr>, supabase'))"

section \<open>actions/bookmarks.ts\<close>

text \<open>
  The messages of the server actions: "gwangwangji IDga piryohamnida." (a place ID is
  needed), "rogeuini piryohamnida." (login is needed), "sayongja jeongboreul chajeul su
  eopseumnida. meonjeo rogeuinhaejuseyo." (cannot find the user information; log in
  first), and the three generic ones for a caught value that is not an \<open>Error\<close>.
\<close>

definition msg_id_required :: jsstring where
  "msg_id_required = [0xAD00, 0xAD11, 0xC9C0] @ ascii '' ID'' @ [0xAC00] @ ascii '' ''
    @ [0xD544, 0xC694, 0xD569, 0xB2C8, 0xB2E4] @ ascii ''.''"

definition msg_login_required :: jsstring where
  "msg_login_required = [0xB85C, 0xADF8, 0xC778, 0xC774] @ ascii '' '' @ [0xD544, 0xC694,
    0xD569, 0xB2C8, 0xB2E4] @ ascii ''.''"

definition msg_user_not_found :: jsstring where
  "msg_user_not_found = [0xC0AC, 0xC6A9, 0xC790] @ ascii '' '' @ [0xC815, 0xBCF4, 0xB97C]
    @ ascii '' '' @ [0xCC3E, 0xC744] @ ascii '' '' @ [0xC218] @ ascii '' '' @ [0xC5C6, 0xC2B5,
    0xB2C8, 0xB2E4] @ ascii ''. '' @ [0xBA3C, 0xC800] @ ascii '' '' @ [0xB85C, 0xADF8, 0xC778,
    0xD574, 0xC8FC, 0xC138, 0xC694] @ ascii ''.''"

definition msg_list_failed :: jsstring where
  "msg_list_failed = [0xBD81, 0xB9C8, 0xD06C] @ ascii '' '' @ [0xBAA9, 0xB85D, 0xC744]
    @ ascii '' '' @ [0xAC00, 0xC838, 0xC624, 0xB294] @ ascii '' '' @ [0xC911] @ ascii '' ''
    @ [0xC624, 0xB958, 0xAC00] @ ascii '' '' @ [0xBC1C, 0xC0DD, 0xD588, 0xC2B5, 0xB2C8, 0xB2E4]
    @ ascii ''.''"

definition msg_add_failed :: jsstring where
  "msg_add_failed = [0xBD81, 0xB9C8, 0xD06C, 0xB97C] @ ascii '' '' @ [0xCD94, 0xAC00, 0xD558,
    0xB294] @ ascii '' '' @ [0xC911] @ ascii '' '' @ [0xC624, 0xB958, 0xAC00] @ ascii '' ''
    @ [0xBC1C, 0xC0DD, 0xD588, 0xC2B5, 0xB2C8, 0xB2E4] @ ascii ''.''"

definition msg_remove_failed :: jsstring where
  "msg_remove_failed = [0xBD81, 0xB9C8, 0xD06C, 0xB97C] @ ascii '' '' @ [0xC0AD, 0xC81C, 0xD558,
    0xB294] @ ascii '' '' @ [0xC911] @ ascii '' '' @ [0xC624, 0xB958, 0xAC00] @ ascii '' ''
    @ [0xBC1C, 0xC0DD, 0xD588, 0xC2B5, 0xB2C8, 0xB2E4] @ ascii ''.''"

text \<open>
  The \<open>catch\<close> block of every action: an \<open>Error\<close> is thrown again as it is, anything else
  becomes a new \<open>Error\<close> with the action's generic message.
\<close>

fun rethrow :: "jsstring \<Rightarrow> thrown \<Rightarrow> thrown" where
  "rethrow generic (JsError n m) = JsError n m"
| "rethrow generic (NonError v) = new_Error generic"

text \<open>
  The calls an action makes to its collaborators, in order, and what an action leaves:
  the value returned or the error thrown, the store, and the calls made.
\<close>

datatype call =
    Call_auth | Call_getSupabaseUserId | Call_getBookmarks | Call_addBookmark | Call_removeBookmark

record 'a action_outcome =
  outcome :: "thrown + 'a"
  store_after :: store
  calls :: "call list"

text \<open>
  \<open>auth()\<close> gives the external identity of the session, \<open>None\<close> for \<open>null\<close>;
  \<open>!clerkUserId\<close> holds for \<open>null\<close> and for the empty string.
\<close>

definition signed_out :: "jsstring option \<Rightarrow> bool" where
  "signed_out clerkUserId = (clerkUserId = None \<or> clerkUserId = Some [])"

definition getBookmarksAction :: "jsstring option \<Rightarrow> store \<Rightarrow> Bookmark list action_outcome" where
  "getBookmarksAction clerkUserId supabase =
     (if signed_out clerkUserId then
        \<lparr> outcome = Inl (rethrow msg_list_failed (new_Error msg_login_required)),
          store_after = supabase, calls = [Call_auth] \<rparr>
      else
        case getSupabaseUserId supabase (the clerkUserId) of
          Inl e \<Rightarrow>
            \<lparr> outcome = Inl (rethrow msg_list_failed e), store_after = supabase,
              calls = [Call_auth, Call_getSupabaseUserId] \<rparr>
        | Inr None \<Rightarrow>
            \<lparr> outcome = Inl (rethrow msg_list_failed (new_Error msg_user_not_found)),
              store_after = supabase, calls = [Call_auth, Call_getSupabaseUserId] \<rparr>
        | Inr (Some supabaseUserId) \<Rightarrow>
            \<lparr> outcome =
                (case getBookmarks supabase supabaseUserId of
                   Inl e \<Rightarrow> Inl (rethrow msg_list_failed e)
                 | Inr rows \<Rightarrow> Inr rows),
              store_after = supabase,
              calls = [Call_auth, Call_getSupabaseUserId, Call_getBookmarks] \<rparr>)"

text \<open>
  The parameter test of \<open>addBookmarkAction\<close> and \<open>removeBookmarkAction\<close>, for a
  \<open>contentId\<close> that is a string:
  \<^verbatim>\<open>!contentId || typeof contentId !== "string" || contentId.trim() === ""\<close>.
\<close>

definition invalid_contentId :: "jsstring \<Rightarrow> bool" where
  "invalid_contentId contentId = (contentId = [] \<or> trim contentId = [])"

definition addBookmarkAction ::
  "jsstring option \<Rightarrow> timestamp \<Rightarrow> store \<Rightarrow> jsstring \<Rightarrow> Bookmark action_outcome" where
  "addBookmarkAction clerkUserId now supabase contentId =
     (if invalid_contentId contentId then
        \<lparr> outcome = Inl (rethrow msg_add_failed (new_Error msg_id_required)),
          store_after = supabase, calls = [] \<rparr>
      else if signed_out clerkUserId then
        \<lparr> outcome = Inl (rethrow msg_add_failed (new_Error msg_login_required)),
          store_after = supabase, calls = [Call_auth] \<rparr>
      else
        case getSupabaseUserId supabase (the clerkUserId) of
          Inl e \<Rightarrow>
            \<lparr> outcome = Inl (rethrow msg_add_failed e), store_after = supabase,
              calls = [Call_auth, Call_getSupabaseUserId] \<rparr>
        | Inr None \<Rightarrow>
            \<lparr> outcome = Inl (rethrow msg_add_failed (new_Error msg_user_not_found)),
              store_after = supabase, calls = [Call_auth, Call_getSupabaseUserId] \<rparr>
        | Inr (Some supabaseUserId) \<Rightarrow>
            (case addBookmark supabase now supabaseUserId contentId of
               (r, supabase') \<Rightarrow>
                 \<lparr> outcome = (case r of Inl e \<Rightarrow> Inl (rethrow msg_add_failed e)
                                         | Inr bookmark \<Rightarrow> Inr bookmark),
                   store_after = supabase',
                   calls = [Call_auth, Call_getSupabaseUserId, Call_addBookmark] \<rparr>))"

definition removeBookmarkAction ::
  "jsstring option \<Rightarrow> store \<Rightarrow> jsstring \<Rightarrow> remove_result action_outcome" where
  "removeBookmarkAction clerkUserId supabase contentId =
     (if invalid_contentId contentId then
        \<lparr> outcome = Inl (rethrow msg_remove_failed (new_Error msg_id_required)),
          store_after = supabase, calls = [] \<rparr>
      else if signed_out clerkUserId then
        \<lparr> outcome = Inl (rethrow msg_remove_failed (new_Error msg_login_required)),
          store_after = supabase, calls = [Call_auth] \<rparr>
      else
        case getSupabaseUserId supabase (the clerkUserId) of
          Inl e \<Rightarrow>
            \<lparr> outcome = Inl (rethrow msg_remove_failed e), store_after = supabase,
              calls = [Call_auth, Call_getSupabaseUserId] \<rparr>
        | Inr None \<Rightarrow>
            \<lparr> outcome = Inl (rethrow msg_remove_failed (new_Error msg_user_not_found)),
              store_after = supabase, calls = [Call_auth, Call_getSupabaseUserId] \<rparr>
        | Inr (Some supabaseUserId) \<Rightarrow>
            (case removeBookmark supabase supabaseUserId contentId of
               (r, supabase') \<Rightarrow>
                 \<lparr> outcome = (case r of Inl e \<Rightarrow> Inl (rethrow msg_remove_failed e)
                                         | Inr result \<Rightarrow> Inr result),
                   store_after = supabase',
                   calls = [Call_auth, Call_getSupabaseUserId, Call_removeBookmark] \<rparr>))"

section \<open>Provider data\<close>

text \<open>
  What \<open>response.json()\<close> gives and the pages read: JSON values, with \<open>undefined\<close> for what
  a property access finds missing. An object is the list of its properties, each key once.
\<close>

datatype json =
    JUndefined
  | JNull
  | JBool bool
  | JNumber real
  | JString jsstring
  | JArray "json list"
  | JObject "(jsstring \<times> json) list"

text \<open>The truth value of a value in a condition (\<open>if (items)\<close>, \<open>a || b\<close>).\<close>

fun truthy :: "json \<Rightarrow> bool" where
  "truthy JUndefined = False"
| "truthy JNull = False"
| "truthy (JBool b) = b"
| "truthy (JNumber n) = (n \<noteq> 0)"
| "truthy (JString s) = (s \<noteq> [])"
| "truthy (JArray xs) = True"
| "truthy (JObject kvs) = True"

fun nullish :: "json \<Rightarrow> bool" where
  "nullish JUndefined = True"
| "nullish JNull = True"
| "nullish v = False"

text \<open>
  \<open>v.k\<close> for a value that is neither \<open>null\<close> nor \<open>undefined\<close> (on those the access throws
  a \<open>TypeError\<close>, whose message is the engine's). The keys read by this program are field
  names of the provider's items, which no array, string, number or boolean has.
\<close>

fun js_get :: "json \<Rightarrow> jsstring \<Rightarrow> json" where
  "js_get (JObject kvs) k = (case map_of kvs k of Some v \<Rightarrow> v | None \<Rightarrow> JUndefined)"
| "js_get v k = JUndefined"

definition type_error :: thrown where
  "type_error = JsError (ascii ''TypeError'') (ascii ''Cannot read properties of undefined'')"

text \<open>\<open>a || b\<close>.\<close>

definition js_or :: "json \<Rightarrow> json \<Rightarrow> json" where
  "js_or a b = (if truthy a then a else b)"

section \<open>app/page.tsx: transformItems\<close>

record TourItem =
  addr1 :: json
  addr2 :: json
  areacode :: json
  contentid :: json
  contenttypeid :: json
  title :: json
  mapx :: json
  mapy :: json
  firstimage :: json
  firstimage2 :: json
  tel :: json
  cat1 :: json
  cat2 :: json
  cat3 :: json
  modifiedtime :: json

text \<open>The object literal that both branches of \<open>transformItems\<close> build from one item.\<close>

definition tour_item_of :: "json \<Rightarrow> TourItem" where
  "tour_item_of item =
     \<lparr> addr1 = js_get item (ascii ''addr1''),
       addr2 = js_get item (ascii ''addr2''),
       areacode = js_get item (ascii ''areacode''),
       contentid = js_get item (ascii ''contentid''),
       contenttypeid = js_get item (ascii ''contenttypeid''),
       title = js_get item (ascii ''title''),
       mapx = js_get item (ascii ''mapx''),
       mapy = js_get item (ascii ''mapy''),
       firstimage = js_get item (ascii ''firstimage''),
       firstimage2 = js_get item (ascii ''firstimage2''),
       tel = js_get item (ascii ''tel''),
       cat1 = js_get item (ascii ''cat1''),
       cat2 = js_get item (ascii ''cat2''),
       cat3 = js_get item (ascii ''cat3''),
       modifiedtime = js_get item (ascii ''modifiedtime'') \<rparr>"

text \<open>
  \<open>transformItems(items: any[] | any)\<close>: an array is mapped item by item (the callback
  throws on an item that is \<open>null\<close>), any other truthy value is taken as a single item, and
  a falsy one gives the empty array.
\<close>

definition transformItems :: "json \<Rightarrow> thrown + TourItem list" where
  "transformItems items =
     (case items of
        JArray xs \<Rightarrow> if list_ex nullish xs then Inl type_error else Inr (map tour_item_of xs)
      | _ \<Rightarrow> if truthy items then Inr [tour_item_of items] else Inr [])"

text \<open>
  The caller's path to the field, \<open>response.response?.body?.items?.item\<close>, on the data that
  \<open>fetchTourAPI\<close> returned (an object), and what \<open>fetchTours\<close> hands to \<open>setTours\<close>:
  \<^verbatim>\<open>if (response.response?.body?.items?.item) { ... transformItems(...) } else { setTours([]) }\<close>.
\<close>

definition opt_get :: "json \<Rightarrow> jsstring \<Rightarrow> json" where
  "opt_get v k = (if nullish v then JUndefined else js_get v k)"

definition response_item :: "json \<Rightarrow> json" where
  "response_item response =
     opt_get (opt_get (opt_get (js_get response (ascii ''response'')) (ascii ''body''))
                 (ascii ''items'')) (ascii ''item'')"

definition fetchTours_items :: "json \<Rightarrow> thrown + TourItem list" where
  "fetchTours_items response =
     (if truthy (response_item response) then transformItems (response_item response)
      else Inr [])"

section \<open>The detail calls of the pages\<close>

text \<open>
  The pages call \<open>detailCommon2\<close>, \<open>detailIntro2\<close> and \<open>detailImage2\<close> and read
  \<open>response.response?.body?.items?.item\<close>. The client declares that field an array, but
  it is whatever the provider sent: an array, a single object, or nothing. A call is
  modelled by how it ends for the page: it throws, or it resolves to the response data.
\<close>

type_synonym api_result = "thrown + json"

record tour_api =
  detailCommon2 :: "json \<Rightarrow> api_result"
  detailIntro2 :: "json \<Rightarrow> json \<Rightarrow> api_result"
  detailImage2 :: "json \<Rightarrow> api_result"

text \<open>
  \<open>v.length\<close> and \<open>v[0]\<close> for a value that is neither \<open>null\<close> nor \<open>undefined\<close>: an array
  and a string have a length and elements, an object has them when it has the properties
  \<open>length\<close> and \<open>0\<close>, a number or a boolean has neither.
\<close>

fun js_length :: "json \<Rightarrow> json" where
  "js_length (JArray xs) = JNumber (real (length xs))"
| "js_length (JString s) = JNumber (real (length s))"
| "js_length (JObject kvs) = js_get (JObject kvs) (ascii ''length'')"
| "js_length v = JUndefined"

fun js_first :: "json \<Rightarrow> json" where
  "js_first (JArray xs) = (case xs of [] \<Rightarrow> JUndefined | x # rest \<Rightarrow> x)"
| "js_first (JString s) = (case s of [] \<Rightarrow> JUndefined | c # rest \<Rightarrow> JString [c])"
| "js_first (JObject kvs) = js_get (JObject kvs) (ascii ''0'')"
| "js_first v = JUndefined"

text \<open>
  \<open>v > 0\<close>: the value is converted to a number, \<open>undefined\<close> to \<open>NaN\<close> (every comparison
  with it is false), \<open>null\<close> and \<open>false\<close> to 0, \<open>true\<close> to 1. The conversion of a string,
  an array or an object is the engine's; it is the parameter \<open>to_number\<close>, with \<open>None\<close>
  for \<open>NaN\<close>. (The pages compare a \<open>length\<close>, which is such a value only for an object
  with a property of that name.)
\<close>

type_synonym to_number = "json \<Rightarrow> real option"

fun js_gt_zero :: "to_number \<Rightarrow> json \<Rightarrow> bool" where
  "js_gt_zero tn JUndefined = False"
| "js_gt_zero tn JNull = False"
| "js_gt_zero tn (JBool b) = b"
| "js_gt_zero tn (JNumber n) = (0 < n)"
| "js_gt_zero tn v = (case tn v of Some n \<Rightarrow> 0 < n | None \<Rightarrow> False)"

text \<open>\<open>!items || items.length === 0\<close>.\<close>

definition no_items :: "json \<Rightarrow> bool" where
  "no_items items = (if truthy items then js_length items = JNumber 0 else True)"

text \<open>\<open>items && items.length > 0\<close>.\<close>

definition some_items :: "to_number \<Rightarrow> json \<Rightarrow> bool" where
  "some_items tn items = (if truthy items then js_gt_zero tn (js_length items) else False)"

section \<open>app/places/[contentId]/page.tsx\<close>

record TourDetail =
  d_contentid :: json
  d_contenttypeid :: json
  d_title :: json
  d_addr1 :: json
  d_addr2 :: json
  d_zipcode :: json
  d_tel :: json
  d_homepage :: json
  d_overview :: json
  d_firstimage :: json
  d_firstimage2 :: json
  d_mapx :: json
  d_mapy :: json
  d_cat1 :: json
  d_cat2 :: json
  d_cat3 :: json
  d_cpyrhtDivCd :: json
  d_modifiedtime :: json

definition tour_detail_of :: "json \<Rightarrow> TourDetail" where
  "tour_detail_of item =
     \<lparr> d_contentid = js_get item (ascii ''contentid''),
       d_contenttypeid = js_get item (ascii ''contenttypeid''),
       d_title = js_get item (ascii ''title''),
       d_addr1 = js_get item (ascii ''addr1''),
       d_addr2 = js_get item (ascii ''addr2''),
       d_zipcode = js_get item (ascii ''zipcode''),
       d_tel = js_get item (ascii ''tel''),
       d_homepage = js_get item (ascii ''homepage''),
       d_overview = js_get item (ascii ''overview''),
       d_firstimage = js_get item (ascii ''firstimage''),
       d_firstimage2 = js_get item (ascii ''firstimage2''),
       d_mapx = js_get item (ascii ''mapx''),
       d_mapy = js_get item (ascii ''mapy''),
       d_cat1 = js_get item (ascii ''cat1''),
       d_cat2 = js_get item (ascii ''cat2''),
       d_cat3 = js_get item (ascii ''cat3''),
       d_cpyrhtDivCd = js_get item (ascii ''cpyrhtDivCd''),
       d_modifiedtime = js_get item (ascii ''modifiedtime'') \<rparr>"

text \<open>
  \<open>intro = { contentid: introItem.contentid || item.contentid, contenttypeid:
  introItem.contenttypeid || item.contenttypeid, ...introItem }\<close>: the two fields and
  the item whose own properties are spread over them.
\<close>

record TourIntro =
  i_contentid :: json
  i_contenttypeid :: json
  i_spread :: json

record TourImage =
  g_contentid :: json
  g_originimgurl :: json
  g_serialnum :: json
  g_smallimageurl :: json
  g_imgname :: json

definition tour_image_of :: "json \<Rightarrow> json \<Rightarrow> TourImage" where
  "tour_image_of item img =
     \<lparr> g_contentid = js_or (js_get img (ascii ''contentid'')) (js_get item (ascii ''contentid'')),
       g_originimgurl = js_get img (ascii ''originimgurl''),
       g_serialnum = js_get img (ascii ''serialnum''),
       g_smallimageurl = js_get img (ascii ''smallimageurl''),
       g_imgname = js_get img (ascii ''imgname'') \<rparr>"

text \<open>
  The inner \<open>try\<close> block of the operating information: whatever it throws (the call, the
  reading of a response that is \<open>null\<close>, the reading of a first item that is \<open>null\<close> or
  \<open>undefined\<close>) is caught and logged, and \<open>intro\<close> stays \<open>null\<close>.
\<close>

definition intro_branch :: "to_number \<Rightarrow> tour_api \<Rightarrow> json \<Rightarrow> TourIntro option" where
  "intro_branch tn api item =
     (case detailIntro2 api (js_get item (ascii ''contentid'')) (js_get item (ascii ''contenttypeid'')) of
        Inl introErr \<Rightarrow> None
      | Inr introResponse \<Rightarrow>
          if nullish introResponse then None
          else let introItems = response_item introResponse in
               if \<not> some_items tn introItems then None
               else let introItem = js_first introItems in
                    if nullish introItem then None
                    else Some \<lparr> i_contentid =
                                  js_or (js_get introItem (ascii ''contentid''))
                                        (js_get item (ascii ''contentid'')),
                                i_contenttypeid =
                                  js_or (js_get introItem (ascii ''contenttypeid''))
                                        (js_get item (ascii ''contenttypeid'')),
                                i_spread = introItem \<rparr>)"

text \<open>
  The inner \<open>try\<close> block of the image list: whatever it throws (the call, the reading of
  a response that is \<open>null\<close>, \<open>imageItems.map\<close> on a value that is not an array, the \<open>map\<close>
  callback on an item that is \<open>null\<close>) is caught and logged, and \<open>images\<close> stays \<open>null\<close>.
\<close>

definition images_branch :: "to_number \<Rightarrow> tour_api \<Rightarrow> json \<Rightarrow> TourImage list option" where
  "images_branch tn api item =
     (case detailImage2 api (js_get item (ascii ''contentid'')) of
        Inl imageErr \<Rightarrow> None
      | Inr imageResponse \<Rightarrow>
          if nullish imageResponse then None
          else let imageItems = response_item imageResponse in
               if \<not> some_items tn imageItems then None
               else case imageItems of
                      JArray imgs \<Rightarrow>
                        if list_ex nullish imgs then None
                        else Some (map (tour_image_of item) imgs)
                    | _ \<Rightarrow> None)"

text \<open>
  What the page comes to: \<open>notFound()\<close>, an error thrown to the error boundary, or the
  render of \<open>detail\<close>, \<open>intro\<close> and \<open>images\<close>. \<open>notFound()\<close> throws an \<open>Error\<close> of the
  framework; the outer \<open>catch\<close> keeps an \<open>Error\<close> as it is and the page throws it again, so
  inside the \<open>try\<close> block too it ends the page as not found.
\<close>

datatype detail_page =
    NotFound
  | Throws thrown
  | Rendered TourDetail "TourIntro option" "TourImage list option"

text \<open>The message of the outer \<open>catch\<close> for a caught value that is not an \<open>Error\<close>:
  "gwangwangji jeongboreul bulleooneun jung oryuga balsaenghaetseumnida." (an error
  occurred while loading the place information).\<close>

definition msg_detail_failed :: jsstring where
  "msg_detail_failed = [0xAD00, 0xAD11, 0xC9C0] @ ascii '' '' @ [0xC815, 0xBCF4, 0xB97C]
    @ ascii '' '' @ [0xBD88, 0xB7EC, 0xC624, 0xB294] @ ascii '' '' @ [0xC911] @ ascii '' ''
    @ [0xC624, 0xB958, 0xAC00] @ ascii '' '' @ [0xBC1C, 0xC0DD, 0xD588, 0xC2B5, 0xB2C8, 0xB2E4]
    @ ascii ''.''"

text \<open>
  The page. Inside the outer \<open>try\<close> block the reading of a response that is \<open>null\<close> and
  the reading of \<open>items[0]\<close> when that is \<open>undefined\<close> or \<open>null\<close> throw a \<open>TypeError\<close>,
  which the outer \<open>catch\<close> keeps and the page throws.
\<close>

definition PlaceDetailPage :: "to_number \<Rightarrow> tour_api \<Rightarrow> jsstring \<Rightarrow> detail_page" where
  "PlaceDetailPage tn api contentId =
     (if contentId = [] \<or> trim contentId = [] then NotFound
      else case detailCommon2 api (JString contentId) of
             Inl err \<Rightarrow> Throws (rethrow msg_detail_failed err)
           | Inr response \<Rightarrow>
               if nullish response then Throws type_error
               else let items = response_item response in
                    if no_items items then NotFound
                    else let item = js_first items in
                         if nullish item then Throws type_error
                         else Rendered (tour_detail_of item) (intro_branch tn api item)
                                (images_branch tn api item))"

section \<open>app/bookmarks/page.tsx\<close>

text \<open>
  The \<open>TourItem\<close> built from the first item of a common-detail response; \<open>areacode\<close> is
  the empty string.
\<close>

definition tour_item_of_detail :: "json \<Rightarrow> TourItem" where
  "tour_item_of_detail item =
     \<lparr> addr1 = js_get item (ascii ''addr1''),
       addr2 = js_get item (ascii ''addr2''),
       areacode = JString [],
       contentid = js_get item (ascii ''contentid''),
       contenttypeid = js_get item (ascii ''contenttypeid''),
       title = js_get item (ascii ''title''),
       mapx = js_get item (ascii ''mapx''),
       mapy = js_get item (ascii ''mapy''),
       firstimage = js_get item (ascii ''firstimage''),
       firstimage2 = js_get item (ascii ''firstimage2''),
       tel = js_get item (ascii ''tel''),
       cat1 = js_get item (ascii ''cat1''),
       cat2 = js_get item (ascii ''cat2''),
       cat3 = js_get item (ascii ''cat3''),
       modifiedtime = js_get item (ascii ''modifiedtime'') \<rparr>"

text \<open>
  The promise made for one bookmark: it never rejects; a failed call, an empty response
  or anything thrown while reading and converting (a response that is \<open>null\<close>, a first
  item \<open>items[0]\<close> that is \<open>undefined\<close> or \<open>null\<close>) resolves to \<open>null\<close>.
\<close>

definition tour_branch :: "tour_api \<Rightarrow> Bookmark \<Rightarrow> TourItem option" where
  "tour_branch api bookmark =
     (case detailCommon2 api (JString (content_id bookmark)) of
        Inl err \<Rightarrow> None
      | Inr response \<Rightarrow>
          if nullish response then None
          else let items = response_item response in
               if no_items items then None
               else let item = js_first items in
                    if nullish item then None else Some (tour_item_of_detail item))"



section \<open>Example provider data\<close>

text \<open>
  Concrete inputs for the evaluations below: a common-detail item, an operating-information
  item and an image item as the provider sends them, a response that holds a given value
  in its items field, and the error of a failed call.
\<close>

definition example_item :: json where
  "example_item =
     JObject [(ascii ''contentid'', JString (ascii ''1'')),
              (ascii ''contenttypeid'', JString (ascii ''12'')),
              (ascii ''title'', JString (ascii ''A''))]"



definition response_with :: "json \<Rightarrow> json" where
  "response_with item =
     JObject [(ascii ''response'',
               JObject [(ascii ''body'', JObject [(ascii ''items'', JObject [(ascii ''item'', item)])])])]"


text \<open>
  Clients for the detail page: one whose common detail holds \<open>items\<close> in the items field
  and whose two other calls return a response without items, and one per outcome of the
  intro call and the image call (\<open>True\<close> for a call that returns its item in an array,
  \<open>False\<close> for a call that throws).
\<close>

definition example_common_api :: "json \<Rightarrow> tour_api" where
  "example_common_api items =
     \<lparr> detailCommon2 = (\<lambda>c. Inr (response_with items)),
       detailIntro2 = (\<lambda>c t. Inr (JObject [])),
       detailImage2 = (\<lambda>c. Inr (JObject [])) \<rparr>"



definition example_bookmark :: "nat \<Rightarrow> string \<Rightarrow> int \<Rightarrow> Bookmark" where
  "example_bookmark n c t =
     \<lparr> bookmark_id = n, user_id = 1, content_id = ascii c, created_at = t \<rparr>"


section \<open>Properties of the error classification\<close>

lemma getErrorType_duplicate: "getErrorType lower_ascii (new_Error msg_duplicate) = UNKNOWN"
  by (simp add: new_Error_def msg_duplicate_def lower_ascii_def ascii_def)

lemma getErrorInfo_etype: "etype (getErrorInfo lc error) = getErrorType lc error"
  by (simp add: getErrorInfo_def Let_def)

lemma getErrorType_fetch_failure:
  "getErrorType lower_ascii (JsError (ascii ''TypeError'') m) = NETWORK"
  by (simp add: lower_ascii_def ascii_def)

lemma getErrorType_rate_limit: "getErrorType lower_ascii (http_error 429) = API"
  by (simp add: http_error_def new_Error_def msg_rate_limit_def lower_ascii_def ascii_def)

lemma getErrorType_server_error: "getErrorType lower_ascii (http_error (500 + n)) = SERVER"
  by (simp add: http_error_def new_Error_def msg_server_error_def lower_ascii_def ascii_def)

text \<open>
  C7. For every error value, the \<open>canRetry\<close> flag of \<open>getErrorInfo\<close> is true exactly when
  \<open>getErrorType\<close> classifies the error as \<open>NETWORK\<close>, \<open>API\<close> (which is where the rate-limit
  errors fall) or \<open>SERVER\<close>, and false for \<open>AUTH\<close>, \<open>VALIDATION\<close>, \<open>NOT_FOUND\<close> and
  \<open>UNKNOWN\<close>; the duplicate-bookmark error of \<open>addBookmark\<close> is classified \<open>UNKNOWN\<close> and so
  carries \<open>canRetry = false\<close>.
\<close>

theorem getErrorInfo_canRetry:
  "canRetry (getErrorInfo lc error) =
     (case getErrorType lc error of
        NETWORK \<Rightarrow> True | API \<Rightarrow> True | SERVER \<Rightarrow> True
      | AUTH \<Rightarrow> False | VALIDATION \<Rightarrow> False | NOT_FOUND \<Rightarrow> False | UNKNOWN \<Rightarrow> False) \<and>
   etype (getErrorInfo lc error) = getErrorType lc error \<and>
   getErrorType lower_ascii (new_Error msg_duplicate) = UNKNOWN \<and>
   canRetry (getErrorInfo lower_ascii (new_Error msg_duplicate)) = False"
proof -
  have "canRetry (getErrorInfo lc e) =
          (getErrorType lc e = NETWORK \<or> getErrorType lc e = API \<or> getErrorType lc e = SERVER)"
    for lc e
    by (simp add: getErrorInfo_def Let_def)
  then show ?thesis
    by (simp add: getErrorInfo_etype getErrorType_duplicate split: ErrorType.splits)
qed

section \<open>Properties of the Retry Executor\<close>

subsection \<open>The branches of the loop\<close>

lemma retry_loop_exit:
  "\<not> attempt \<le> retries \<Longrightarrow>
   retry_loop try_block terminal final retries attempt lastError evs = (Inl (final lastError), evs)"
  by (subst retry_loop.simps) simp

lemma retry_loop_returns:
  "attempt \<le> retries \<Longrightarrow> try_block attempt = Inr d \<Longrightarrow>
   retry_loop try_block terminal final retries attempt lastError evs =
     (Inr d, evs @ [Fetched attempt])"
  by (subst retry_loop.simps) simp

lemma retry_loop_terminal:
  "attempt \<le> retries \<Longrightarrow> try_block attempt = Inl e \<Longrightarrow> terminal e \<Longrightarrow>
   retry_loop try_block terminal final retries attempt lastError evs =
     (Inl (as_Error e), evs @ [Fetched attempt])"
  by (subst retry_loop.simps) simp

lemma retry_loop_retry:
  "attempt < retries \<Longrightarrow> try_block attempt = Inl e \<Longrightarrow> \<not> terminal e \<Longrightarrow>
   retry_loop try_block terminal final retries attempt lastError evs =
     retry_loop try_block terminal final retries (attempt + 1) (Some (as_Error e))
       (evs @ [Fetched attempt, Slept (backoff_delay attempt)])"
  by (subst retry_loop.simps) simp

lemma retry_loop_last:
  "attempt = retries \<Longrightarrow> try_block attempt = Inl e \<Longrightarrow> \<not> terminal e \<Longrightarrow>
   retry_loop try_block terminal final retries attempt lastError evs =
     retry_loop try_block terminal final retries (attempt + 1) (Some (as_Error e))
       (evs @ [Fetched attempt])"
  by (subst retry_loop.simps) simp

subsection \<open>The events of a run\<close>

lemma spec_events_0: "spec_events 0 = []"
  by (simp add: spec_events_def)

lemma spec_events_Suc:
  "spec_events (Suc m) =
     spec_events m @ (if m \<ge> 1 then [Slept (spec_delay_before (Suc m)), Fetched (Suc m)]
                      else [Fetched (Suc m)])"
  by (simp add: spec_events_def)

lemma spec_delay_backoff: "1 \<le> a \<Longrightarrow> spec_delay_before (Suc a) = backoff_delay a"
  by (cases a) (simp_all add: spec_delay_before_def backoff_delay_def)

lemma last_spec_events: "1 \<le> m \<Longrightarrow> last (spec_events m) = Fetched m"
  by (cases m) (simp_all add: spec_events_Suc)

lemma Fetched_in_spec_events: "Fetched j \<in> set (spec_events m) \<longleftrightarrow> 1 \<le> j \<and> j \<le> m"
proof (induction m)
  case 0
  then show ?case by (simp add: spec_events_def)
next
  case (Suc m)
  then show ?case by (auto simp: spec_events_Suc)
qed

text \<open>
  The invariant of the loop: when attempt \<open>a\<close> is about to be made, the events so far and
  its \<open>fetch\<close> are the events of \<open>a\<close> attempts of the specification; when the attempts are
  used up, the events are those of \<open>retries\<close> attempts.
\<close>

lemma retry_loop_events_inv:
  "(1 \<le> a \<and> a \<le> retries \<and> evs @ [Fetched a] = spec_events a) \<or>
   (a = retries + 1 \<and> evs = spec_events retries) \<Longrightarrow>
   \<exists>m. m \<le> retries \<and>
       snd (retry_loop try_block terminal final retries a le evs) = spec_events m"
proof (induction try_block terminal final retries a le evs rule: retry_loop.induct)
  case (1 try_block terminal final retries attempt lastError evs)
  show ?case
  proof (cases "attempt \<le> retries")
    case False
    with "1.prems" have "evs = spec_events retries" by auto
    then show ?thesis
      by (auto simp: retry_loop_exit[OF False])
  next
    case True
    with "1.prems" have a1: "1 \<le> attempt" and ev: "evs
      @ [Fetched attempt] = spec_events attempt"
      by auto
    show ?thesis
    proof (cases "try_block attempt")
      case (Inr d)
      show ?thesis
        using True ev
        by (auto simp: retry_loop_returns[where try_block = try_block, OF True Inr])
    next
      case (Inl e)
      show ?thesis
      proof (cases "terminal e")
        case t: True
        show ?thesis
          using True ev
          by (auto simp: retry_loop_terminal[where try_block = try_block and terminal = terminal,
                OF True Inl t])
      next
        case nt: False
        show ?thesis
        proof (cases "attempt < retries")
          case lt: True
          have nxt: "(evs @ [Fetched attempt, Slept (backoff_delay attempt)])
            @ [Fetched (attempt + 1)]
                 = spec_events (attempt + 1)"
            using ev a1 by (simp add: spec_events_Suc spec_delay_backoff)
          show ?thesis
            unfolding retry_loop_retry[where try_block = try_block and terminal = terminal,
                OF lt Inl nt]
            by (rule "1.IH"(1)[OF True Inl nt lt]) (use nxt lt in simp)
        next
          case ge: False
          with True have eq: "attempt = retries" by simp
          show ?thesis
            unfolding retry_loop_last[where try_block = try_block and terminal = terminal,
                OF eq Inl nt]
            by (rule "1.IH"(2)[OF True Inl nt ge]) (use ev eq in simp)
        qed
      qed
    qed
  qed
qed

lemma retry_loop_events:
  "\<exists>m. m \<le> retries \<and>
       snd (retry_loop try_block terminal final retries 1 None []) = spec_events m"
proof -
  have "(1 \<le> (1::nat) \<and> 1 \<le> retries \<and> [] @ [Fetched 1] = spec_events 1) \<or>
        (1 = retries + 1 \<and> [] = spec_events retries)"
    by (cases "retries = 0") (simp_all add: spec_events_def)
  then show ?thesis
    by (rule retry_loop_events_inv)
qed

lemma spec_delay_capped: "spec_delay_before (n + 5) = 5000"
proof -
  have "(1::nat) \<le> 2 ^ n" by simp
  then have "(5000::nat) \<le> 1000 * (8 * 2 ^ n)" by linarith
  moreover have "n + 5 - 2 = n + 3" by simp
  ultimately show ?thesis
    by (simp add: spec_delay_before_def power_add mult.commute)
qed

text \<open>
  C4. In the Retry Executor the delay before attempt \<open>n\<close>, for every \<open>n\<close> from 2 on, is
  exactly \<open>min(1000 * 2^(n-2), 5000)\<close> milliseconds: every run of \<open>fetchTourAPI\<close>, in
  either copy, makes some number \<open>m\<close> of attempts, at most \<open>retries\<close>, and its events are
  then exactly those of the specification's rule, attempt 1 first and each later attempt
  \<open>n\<close> right after a wait of \<open>spec_delay_before n\<close>. The delays before attempts 2, 3 and
  4 are 1000, 2000 and 4000 milliseconds, and before every attempt from the fifth on 5000.
\<close>

theorem fetchTourAPI_backoff:
  "(\<exists>m. m \<le> retries \<and> snd (fetchTourAPI lc env retries) = spec_events m) \<and>
   (\<exists>m. m \<le> retries \<and> snd (fetchTourAPI_plain env retries) = spec_events m) \<and>
   spec_delay_before 2 = 1000 \<and> spec_delay_before 3 = 2000 \<and> spec_delay_before 4 = 4000 \<and>
   spec_delay_before (n + 5) = 5000"
proof -
  have "\<exists>m. m \<le> retries \<and> snd (fetchTourAPI lc env retries) = spec_events m"
    unfolding fetchTourAPI_def by (rule retry_loop_events)
  moreover have "\<exists>m. m \<le> retries \<and> snd (fetchTourAPI_plain env retries) = spec_events m"
    unfolding fetchTourAPI_plain_def by (rule retry_loop_events)
  ultimately show ?thesis
    by (simp add: spec_delay_capped) (simp add: spec_delay_before_def)
qed

subsection \<open>A terminal error ends the run\<close>

lemma retry_loop_stops_inv:
  "try_block k = Inl e \<Longrightarrow> terminal e \<Longrightarrow> Fetched k \<notin> set evs \<Longrightarrow>
   Fetched k \<in> set (snd (retry_loop try_block terminal final retries a le evs)) \<Longrightarrow>
   fst (retry_loop try_block terminal final retries a le evs) = Inl (as_Error e) \<and>
   (\<exists>pre. snd (retry_loop try_block terminal final retries a le evs) = pre
     @ [Fetched k])"
proof (induction try_block terminal final retries a le evs rule: retry_loop.induct)
  case (1 try_block terminal final retries attempt lastError evs)
  show ?case
  proof (cases "attempt \<le> retries")
    case False
    with "1.prems"(3,4) show ?thesis
      by (auto simp: retry_loop_exit[OF False])
  next
    case le: True
    show ?thesis
    proof (cases "attempt = k")
      case True
      have t: "try_block attempt = Inl e"
        using "1.prems"(1) True by simp
      from retry_loop_terminal[where try_block = try_block and terminal = terminal,
             OF le t "1.prems"(2)] True
      show ?thesis by simp
    next
      case nk: False
      show ?thesis
      proof (cases "try_block attempt")
        case (Inr d)
        with nk "1.prems"(3,4) show ?thesis
          by (simp add: retry_loop_returns[where try_block = try_block, OF le Inr])
      next
        case (Inl e')
        show ?thesis
        proof (cases "terminal e'")
          case True
          with nk "1.prems"(3,4) show ?thesis
            by (simp add: retry_loop_terminal[where try_block = try_block and terminal = terminal,
                  OF le Inl True])
        next
          case nt: False
          show ?thesis
          proof (cases "attempt < retries")
            case lt: True
            note eq = retry_loop_retry[where try_block = try_block and terminal = terminal,
                        OF lt Inl nt]
            show ?thesis
              unfolding eq
            proof (rule "1.IH"(1)[OF le Inl nt lt "1.prems"(1,2)])
              show "Fetched k \<notin> set (evs
                @ [Fetched attempt, Slept (backoff_delay attempt)])"
                using "1.prems"(3) nk by simp
              show "Fetched k \<in> set (snd (retry_loop try_block terminal final retries (attempt + 1)
                      (Some (as_Error e')) (evs
                        @ [Fetched attempt, Slept (backoff_delay attempt)])))"
                using "1.prems"(4) by (simp add: eq)
            qed
          next
            case ge: False
            with le have "attempt = retries" by simp
            note eq = retry_loop_last[where try_block = try_block and terminal = terminal,
                        OF this Inl nt]
            show ?thesis
              unfolding eq
            proof (rule "1.IH"(2)[OF le Inl nt ge "1.prems"(1,2)])
              show "Fetched k \<notin> set (evs @ [Fetched attempt])"
                using "1.prems"(3) nk by simp
              show "Fetched k \<in> set (snd (retry_loop try_block terminal final retries (attempt + 1)
                      (Some (as_Error e')) (evs @ [Fetched attempt])))"
                using "1.prems"(4) by (simp add: eq)
            qed
          qed
        qed
      qed
    qed
  qed
qed

text \<open>
  If attempt \<open>k\<close> of a run is made and its \<open>try\<close> block throws a terminal error, the run
  throws that error after exactly \<open>k\<close> attempts.
\<close>

lemma retry_loop_stops:
  assumes "try_block k = Inl e" and "terminal e"
      and "Fetched k \<in> set (snd (retry_loop try_block terminal final retries 1 None []))"
  shows "retry_loop try_block terminal final retries 1 None [] = (Inl (as_Error e), spec_events k)"
proof -
  let ?r = "retry_loop try_block terminal final retries 1 None []"
  have stop: "fst ?r = Inl (as_Error e) \<and> (\<exists>pre. snd ?r = pre @ [Fetched k])"
    using assms by (intro retry_loop_stops_inv) simp_all
  obtain m where m: "m \<le> retries" "snd ?r = spec_events m"
    using retry_loop_events by blast
  from stop obtain pre where pre: "snd ?r = pre @ [Fetched k]" by blast
  have "m \<noteq> 0" using m(2) pre by (cases m) (simp_all add: spec_events_0)
  then have "last (spec_events m) = Fetched m" by (simp add: last_spec_events)
  moreover have "last (spec_events m) = Fetched k" using m(2) pre by (metis last_snoc)
  ultimately have mk: "m = k" by simp
  show ?thesis
    using stop m(2) mk by (simp add: prod_eq_iff)
qed

subsection \<open>The authentication failure\<close>

lemma js_includes_refl_prefix: "starts_with (sub @ rest) sub"
  by (induction sub) simp_all

lemma starts_with_append: "starts_with a sub \<Longrightarrow> starts_with (a @ b) sub"
  by (induction a sub rule: starts_with.induct) simp_all

lemma js_includes_append: "js_includes a sub \<Longrightarrow> js_includes (a @ b) sub"
proof (induction a)
  case Nil
  then show ?case by (cases b) simp_all
next
  case (Cons c cs)
  then show ?case
    using starts_with_append[of "c # cs" sub b] by auto
qed

lemma is_terminal_auth: "is_terminal (new_Error msg_api_auth_failed)"
  by (simp add: is_terminal_def new_Error_def msg_api_auth_failed_def ascii_def)

lemma try_once_auth:
  "st = 401 \<or> st = 403 \<Longrightarrow> try_once lc (Response st txt b) = Inl (new_Error msg_api_auth_failed)"
  by (elim disjE) (simp_all add: response_ok_def http_error_def)

lemma is_terminal_plain_auth:
  "is_terminal_plain (http_error_plain 401 txt attempt retries)"
  "is_terminal_plain (http_error_plain 403 txt attempt retries)"
  by (simp_all add: http_error_plain_def new_Error_def ascii_def)

lemma try_once_plain_auth:
  "st = 401 \<or> st = 403 \<Longrightarrow>
   try_once_plain attempt retries (Response st txt b) = Inl (http_error_plain st txt attempt retries)"
  by (elim disjE) (simp_all add: response_ok_def)

lemma getErrorType_auth_failed: "getErrorType lower_ascii (new_Error msg_api_auth_failed) = AUTH"
  by (simp add: new_Error_def msg_api_auth_failed_def lower_ascii_def ascii_def)

lemma show_nat_401: "show_nat 401 = ascii ''401''"
  by (simp add: show_nat.simps ascii_def)

lemma show_nat_403: "show_nat 403 = ascii ''403''"
  by (simp add: show_nat.simps ascii_def)

lemma getErrorType_auth_failed_plain:
  "st = 401 \<or> st = 403 \<Longrightarrow>
   getErrorType lower_ascii (http_error_plain st txt attempt retries) = AUTH"
  by (elim disjE)
     (simp_all add: http_error_plain_def new_Error_def show_nat_401 show_nat_403 lower_ascii_def
        ascii_def)

text \<open>
  C9. A response with status 401 (or 403) makes the run fail at once with the
  authentication error and never leads to another attempt, whatever \<open>retries\<close> is: if the
  attempt \<open>k\<close> of a run is made and its response has status 401 or 403, then, in either
  copy, the run throws the "API authentication failed" error of that attempt and its
  events are those of exactly \<open>k\<close> attempts, among which there is no attempt \<open>k + 1\<close>;
  \<open>getErrorType\<close> classifies the error as \<open>AUTH\<close>.
\<close>

theorem fetchTourAPI_auth_not_retried:
  assumes "env k = Response st txt b" and "st = 401 \<or> st = 403"
  shows "(Fetched k \<in> set (snd (fetchTourAPI lc env retries)) \<longrightarrow>
            fetchTourAPI lc env retries = (Inl (new_Error msg_api_auth_failed), spec_events k)) \<and>
         (Fetched k \<in> set (snd (fetchTourAPI_plain env retries)) \<longrightarrow>
            fetchTourAPI_plain env retries =
              (Inl (http_error_plain st txt k retries), spec_events k)) \<and>
         Fetched (Suc k) \<notin> set (spec_events k) \<and>
         getErrorType lower_ascii (new_Error msg_api_auth_failed) = AUTH \<and>
         getErrorType lower_ascii (http_error_plain st txt k retries) = AUTH"
proof (intro conjI impI)
  assume made: "Fetched k \<in> set (snd (fetchTourAPI lc env retries))"
  have t: "try_once lc (env k) = Inl (new_Error msg_api_auth_failed)"
    using assms by (simp add: try_once_auth del: try_once.simps)
  have "retry_loop (\<lambda>attempt. try_once lc (env attempt)) is_terminal (final_formatted lc)
          retries 1 None [] = (Inl (as_Error (new_Error msg_api_auth_failed)), spec_events k)"
    using made unfolding fetchTourAPI_def
    by (intro retry_loop_stops) (simp_all add: t is_terminal_auth)
  then show "fetchTourAPI lc env retries = (Inl (new_Error msg_api_auth_failed), spec_events k)"
    by (simp add: fetchTourAPI_def new_Error_def)
next
  assume made: "Fetched k \<in> set (snd (fetchTourAPI_plain env retries))"
  have t: "try_once_plain k retries (env k) = Inl (http_error_plain st txt k retries)"
    using assms by (simp add: try_once_plain_auth del: try_once_plain.simps)
  have tm: "is_terminal_plain (http_error_plain st txt k retries)"
    using assms(2) is_terminal_plain_auth by auto
  have "retry_loop (\<lambda>attempt. try_once_plain attempt retries (env attempt)) is_terminal_plain
          final_plain retries 1 None []
        = (Inl (as_Error (http_error_plain st txt k retries)), spec_events k)"
    using made unfolding fetchTourAPI_plain_def
    by (intro retry_loop_stops) (simp_all add: t tm)
  moreover have "as_Error (http_error_plain st txt k retries) = http_error_plain st txt k retries"
    by (simp add: http_error_plain_def new_Error_def)
  ultimately show "fetchTourAPI_plain env retries =
                     (Inl (http_error_plain st txt k retries), spec_events k)"
    by (simp add: fetchTourAPI_plain_def)
next
  show "Fetched (Suc k) \<notin> set (spec_events k)"
    by (simp add: Fetched_in_spec_events)
next
  show "getErrorType lower_ascii (new_Error msg_api_auth_failed) = AUTH"
    by (rule getErrorType_auth_failed)
next
  show "getErrorType lower_ascii (http_error_plain st txt k retries) = AUTH"
    using assms(2) by (rule getErrorType_auth_failed_plain)
qed

theorem fetchTourAPI_auth_not_retried_witness:
  "fetchTourAPI lower_ascii (\<lambda>n. Response 401 (ascii ''Unauthorized'') (Body None ())) 3
     = (Inl (new_Error msg_api_auth_failed), [Fetched 1]) \<and>
   fetchTourAPI_plain (\<lambda>n. Response 401 (ascii ''Unauthorized'') (Body None ())) 3
     = (Inl (http_error_plain 401 (ascii ''Unauthorized'') 1 3), [Fetched 1])"
proof -
  let ?env = "\<lambda>n::nat. Response 401 (ascii ''Unauthorized'') (Body None ())"
  have t: "is_terminal (http_error 401)"
    using is_terminal_auth by (simp add: http_error_def)
  have f: "snd (fetchTourAPI lower_ascii ?env 3) = [Fetched 1]"
    unfolding fetchTourAPI_def
    by (subst retry_loop.simps) (simp add: response_ok_def t)
  have g: "snd (fetchTourAPI_plain ?env 3) = [Fetched 1]"
    unfolding fetchTourAPI_plain_def
    by (subst retry_loop.simps) (simp add: response_ok_def is_terminal_plain_auth)
  have m1: "Fetched 1 \<in> set (snd (fetchTourAPI lower_ascii ?env 3))"
    by (simp add: f)
  have m2: "Fetched 1 \<in> set (snd (fetchTourAPI_plain ?env 3))"
    by (simp add: g)
  have e: "?env 1 = Response 401 (ascii ''Unauthorized'') (Body None ())" by simp
  have s: "(401::nat) = 401 \<or> (401::nat) = 403" by simp
  from fetchTourAPI_auth_not_retried[of ?env 1 401 "ascii ''Unauthorized''" "Body None ()" lower_ascii 3,
         OF e s] m1 m2
  show ?thesis by (simp add: spec_events_def)
qed

section \<open>Properties of the Bookmark Gateway\<close>

subsection \<open>The store\<close>

lemma has_bookmark_iff:
  "has_bookmark db u c \<longleftrightarrow> (u, c) \<in> (\<lambda>b. (user_id b, content_id b)) ` set (bookmarks db)"
  by (auto simp: has_bookmark_def list_ex_iff)

lemma count_distinct_key:
  "distinct (map f xs) \<Longrightarrow> length (filter (\<lambda>x. f x = k) xs) = (if k \<in> f ` set xs then 1 else 0)"
  by (induction xs) auto

lemma bookmarks_insert_duplicate:
  "has_bookmark db u c \<Longrightarrow>
   bookmarks_insert db now u c =
     (PgResponse None
        (Some \<lparr> code = ascii ''23505'',
                pg_message = ascii ''duplicate key value violates unique constraint unique_user_bookmark'' \<rparr>),
      db)"
  by (simp add: bookmarks_insert_def)

lemma addBookmark_has_bookmark:
  "has_bookmark db u c \<Longrightarrow> addBookmark db now u c = (Inl (new_Error msg_duplicate), db)"
  by (simp add: addBookmark_def bookmarks_insert_duplicate)

lemma addBookmark_fresh:
  "\<not> has_bookmark db u c \<Longrightarrow> has_user db u \<Longrightarrow>
   addBookmark db now u c =
     (Inr \<lparr> bookmark_id = next_id db, user_id = u, content_id = c, created_at = now \<rparr>,
      db \<lparr> bookmarks := bookmarks db @
             [\<lparr> bookmark_id = next_id db, user_id = u, content_id = c, created_at = now \<rparr>],
           next_id := next_id db + 1 \<rparr>)"
  by (simp add: addBookmark_def bookmarks_insert_def Let_def)

lemma addBookmark_no_user:
  "\<not> has_bookmark db u c \<Longrightarrow> \<not> has_user db u \<Longrightarrow>
   addBookmark db now u c =
     (Inl (new_Error (ascii ''Failed to add bookmark: '' @
        ascii ''insert or update on table bookmarks violates foreign key constraint'')), db)"
  by (simp add: addBookmark_def bookmarks_insert_def ascii_def)

text \<open>The constraint holds after every insert and every delete.\<close>

lemma addBookmark_keeps_unique:
  "unique_user_bookmark db \<Longrightarrow> unique_user_bookmark (snd (addBookmark db now u c))"
proof (cases "has_bookmark db u c")
  case True
  assume "unique_user_bookmark db"
  with True show ?thesis by (simp add: addBookmark_has_bookmark)
next
  case False
  assume uq: "unique_user_bookmark db"
  show ?thesis
  proof (cases "has_user db u")
    case True
    with False uq show ?thesis
      by (auto simp: addBookmark_fresh unique_user_bookmark_def has_bookmark_iff)
  next
    case nu: False
    with False uq show ?thesis by (simp add: addBookmark_no_user)
  qed
qed

lemma removeBookmark_eq:
  "removeBookmark db u c =
     (Inr \<lparr> success = True \<rparr>,
      db \<lparr> bookmarks := filter (\<lambda>b. \<not> (user_id b = u \<and> content_id b = c)) (bookmarks db) \<rparr>)"
  by (simp add: removeBookmark_def bookmarks_delete_def)

lemma removeBookmark_keeps_unique:
  "unique_user_bookmark db \<Longrightarrow> unique_user_bookmark (snd (removeBookmark db u c))"
  by (simp add: removeBookmark_eq unique_user_bookmark_def distinct_map_filter)

lemma getBookmarks_eq:
  "getBookmarks db u =
     Inr (sort_key (\<lambda>b. - created_at b) (filter (\<lambda>b. user_id b = u) (bookmarks db)))"
  by (simp add: getBookmarks_def bookmarks_select_by_user_def)

lemma listed_count:
  assumes "unique_user_bookmark db" and "getBookmarks db u = Inr bs"
  shows "length (filter (\<lambda>b. content_id b = c) bs) = (if has_bookmark db u c then 1 else 0)"
proof -
  have bs: "bs = sort_key (\<lambda>b. - created_at b) (filter (\<lambda>b. user_id b = u) (bookmarks db))"
    using assms(2) by (simp add: getBookmarks_eq)
  have "length (filter (\<lambda>b. content_id b = c) bs) =
        length (filter (\<lambda>b. content_id b = c) (filter (\<lambda>b. user_id b = u) (bookmarks db)))"
    unfolding bs by (simp add: filter_sort)
  also have "\<dots> = length (filter (\<lambda>b. (user_id b, content_id b) = (u, c)) (bookmarks db))"
    by (simp add: conj_commute)
  also have "\<dots> = (if has_bookmark db u c then 1 else 0)"
    using assms(1) unfolding unique_user_bookmark_def has_bookmark_iff
    by (rule count_distinct_key)
  finally show ?thesis .
qed

text \<open>
  C1. For every user and content identifier, inserting a bookmark for a pair that already
  has one yields the duplicate error: the store reports the unique-constraint violation
  23505, \<open>addBookmark\<close> throws the message \<open>msg_duplicate\<close>, and the store is left as it
  was. No second row is created: in a store that satisfies \<open>unique_user_bookmark\<close> and has
  the user, after insert, insert again, list, the second insert is the duplicate error and
  the list of that user holds exactly one bookmark with that content identifier.
\<close>

theorem addBookmark_duplicate:
  "(has_bookmark db u c \<longrightarrow> addBookmark db now u c = (Inl (new_Error msg_duplicate), db)) \<and>
   (unique_user_bookmark db \<and> has_user db u \<longrightarrow>
      addBookmark (snd (addBookmark db t1 u c)) t2 u c
        = (Inl (new_Error msg_duplicate), snd (addBookmark db t1 u c)) \<and>
      (\<exists>bs. getBookmarks (snd (addBookmark (snd (addBookmark db t1 u c)) t2 u c)) u = Inr bs \<and>
            length (filter (\<lambda>b. content_id b = c) bs) = 1))"
proof (intro conjI impI)
  assume "has_bookmark db u c"
  then show "addBookmark db now u c = (Inl (new_Error msg_duplicate), db)"
    by (rule addBookmark_has_bookmark)
next
  assume a: "unique_user_bookmark db \<and> has_user db u"
  let ?db1 = "snd (addBookmark db t1 u c)"
  have has1: "has_bookmark ?db1 u c"
  proof (cases "has_bookmark db u c")
    case True
    then show ?thesis by (simp add: addBookmark_has_bookmark)
  next
    case False
    with a show ?thesis by (simp add: addBookmark_fresh has_bookmark_def)
  qed
  then show second: "addBookmark ?db1 t2 u c = (Inl (new_Error msg_duplicate), ?db1)"
    by (rule addBookmark_has_bookmark)
  have uq1: "unique_user_bookmark ?db1"
    using a by (simp add: addBookmark_keeps_unique)
  obtain bs where bs: "getBookmarks ?db1 u = Inr bs"
    by (simp add: getBookmarks_eq)
  have "length (filter (\<lambda>b. content_id b = c) bs) = 1"
    using listed_count[OF uq1 bs, of c] has1 by simp
  with bs show "\<exists>bs. getBookmarks (snd (addBookmark ?db1 t2 u c)) u = Inr bs \<and>
                     length (filter (\<lambda>b. content_id b = c) bs) = 1"
    by (simp add: second)
qed

text \<open>
  C2. For every user and content identifier, \<open>removeBookmark\<close> returns
  \<open>{ success: true }\<close> and never an error; deleting a bookmark that does not exist leaves
  the store as it is; and deleting the same pair a second time gives the same successful
  result and leaves the state the first delete produced, in which the pair has no
  bookmark.
\<close>

theorem removeBookmark_idempotent:
  "fst (removeBookmark db u c) = Inr \<lparr> success = True \<rparr> \<and>
   removeBookmark (snd (removeBookmark db u c)) u c
     = (Inr \<lparr> success = True \<rparr>, snd (removeBookmark db u c)) \<and>
   \<not> has_bookmark (snd (removeBookmark db u c)) u c \<and>
   (\<not> has_bookmark db u c \<longrightarrow> removeBookmark db u c = (Inr \<lparr> success = True \<rparr>, db))"
proof -
  have "filter (\<lambda>b. \<not> (user_id b = u \<and> content_id b = c)) (bookmarks db) = bookmarks db"
    if "\<not> has_bookmark db u c"
    using that by (auto simp: has_bookmark_def list_ex_iff filter_id_conv)
  then show ?thesis
    by (auto simp: removeBookmark_eq has_bookmark_def list_ex_iff)
qed

text \<open>
  C3. For every user, \<open>getBookmarks\<close> returns the list of all of that user's bookmarks
  (the same rows with the same multiplicities as the user's rows of the table), ordered
  by creation time descending; for a user with no bookmark it returns the empty list, not
  an error.
\<close>

theorem getBookmarks_latest_first:
  "(\<exists>bs. getBookmarks db u = Inr bs \<and>
         mset bs = mset (filter (\<lambda>b. user_id b = u) (bookmarks db)) \<and>
         sorted_wrt (\<lambda>a b. created_at a \<ge> created_at b) bs) \<and>
   (filter (\<lambda>b. user_id b = u) (bookmarks db) = [] \<longrightarrow> getBookmarks db u = Inr [])"
proof -
  let ?bs = "sort_key (\<lambda>b. - created_at b) (filter (\<lambda>b. user_id b = u) (bookmarks db))"
  have "sorted (map (\<lambda>b. - created_at b) ?bs)" by (rule sorted_sort_key)
  then have "sorted_wrt (\<lambda>a b. created_at a \<ge> created_at b) ?bs"
    by (simp add: sorted_map)
  then show ?thesis by (simp add: getBookmarks_eq)
qed

lemma trim_blank:
  assumes "list_all is_js_whitespace s"
  shows "trim s = []"
proof -
  have d: "dropWhile is_js_whitespace s = []"
    using assms by (simp add: dropWhile_eq_Nil_conv list_all_iff)
  show ?thesis unfolding trim_def d by simp
qed

lemma trim_empty_iff: "trim s = [] \<longleftrightarrow> list_all is_js_whitespace s"
proof
  assume "trim s = []"
  then have "dropWhile is_js_whitespace (rev (dropWhile is_js_whitespace s)) = []"
    by (simp add: trim_def)
  then have "\<forall>x \<in> set (dropWhile is_js_whitespace s). is_js_whitespace x"
    by (simp add: dropWhile_eq_Nil_conv)
  then have "dropWhile is_js_whitespace s = []"
    by (metis hd_dropWhile list.set_sel(1))
  then show "list_all is_js_whitespace s"
    by (simp add: dropWhile_eq_Nil_conv list_all_iff)
qed (rule trim_blank)

lemma invalid_contentId_iff: "invalid_contentId c \<longleftrightarrow> list_all is_js_whitespace c"
  by (auto simp: invalid_contentId_def trim_empty_iff)

lemma getSupabaseUserId_absent:
  "filter (\<lambda>r. clerk_id r = clerkId) (users db) = [] \<Longrightarrow> getSupabaseUserId db clerkId = Inr None"
  by (simp add: getSupabaseUserId_def users_select_id_single_def)

lemma msg_user_not_found_distinct: "msg_user_not_found \<noteq> msg_login_required"
  by (simp add: msg_user_not_found_def msg_login_required_def)

lemma addBookmarkAction_store_errors:
  "getSupabaseUserId db clerkId = Inr None \<Longrightarrow>
   store_after (addBookmarkAction (Some clerkId) now db c) = db"
  by (simp add: addBookmarkAction_def)

text \<open>
  C8. For every authenticated external identity (a non-empty \<open>clerkId\<close>) with no internal
  user record, the lookup \<open>getSupabaseUserId\<close> returns the absent result, and the three
  bookmark operations fail with the "account not synced" error \<open>msg_user_not_found\<close> after
  the calls to \<open>auth\<close> and to the lookup only; add and remove do so for a content
  identifier that passes their parameter test (a blank one is rejected before, see C10).
  The store, and with it the users table, is unchanged in every case: no user is created.
  The message differs from the "not authenticated" message \<open>msg_login_required\<close>, which is
  what a session without identity gets.
\<close>

theorem unsynced_user_is_distinct_condition:
  assumes "clerkId \<noteq> []" and "filter (\<lambda>r. clerk_id r = clerkId) (users db) = []"
  shows "getSupabaseUserId db clerkId = Inr None \<and>
         getBookmarksAction (Some clerkId) db =
           \<lparr> outcome = Inl (new_Error msg_user_not_found), store_after = db,
             calls = [Call_auth, Call_getSupabaseUserId] \<rparr> \<and>
         (\<not> invalid_contentId c \<longrightarrow>
            addBookmarkAction (Some clerkId) now db c =
              \<lparr> outcome = Inl (new_Error msg_user_not_found), store_after = db,
                calls = [Call_auth, Call_getSupabaseUserId] \<rparr> \<and>
            removeBookmarkAction (Some clerkId) db c =
              \<lparr> outcome = Inl (new_Error msg_user_not_found), store_after = db,
                calls = [Call_auth, Call_getSupabaseUserId] \<rparr>) \<and>
         store_after (addBookmarkAction (Some clerkId) now db c) = db \<and>
         store_after (removeBookmarkAction (Some clerkId) db c) = db \<and>
         msg_user_not_found \<noteq> msg_login_required \<and>
         outcome (getBookmarksAction None db) = Inl (new_Error msg_login_required)"
proof -
  have look: "getSupabaseUserId db clerkId = Inr None"
    using assms(2) by (rule getSupabaseUserId_absent)
  have so: "\<not> signed_out (Some clerkId)"
    using assms(1) by (simp add: signed_out_def)
  have "getBookmarksAction (Some clerkId) db =
           \<lparr> outcome = Inl (new_Error msg_user_not_found), store_after = db,
             calls = [Call_auth, Call_getSupabaseUserId] \<rparr>"
    by (simp add: getBookmarksAction_def so look new_Error_def)
  moreover have "addBookmarkAction (Some clerkId) now db c =
              \<lparr> outcome = Inl (new_Error msg_user_not_found), store_after = db,
                calls = [Call_auth, Call_getSupabaseUserId] \<rparr>"
    if "\<not> invalid_contentId c"
    using that by (simp add: addBookmarkAction_def so look new_Error_def)
  moreover have "removeBookmarkAction (Some clerkId) db c =
              \<lparr> outcome = Inl (new_Error msg_user_not_found), store_after = db,
                calls = [Call_auth, Call_getSupabaseUserId] \<rparr>"
    if "\<not> invalid_contentId c"
    using that by (simp add: removeBookmarkAction_def so look new_Error_def)
  moreover have "store_after (addBookmarkAction (Some clerkId) now db c) = db"
    by (simp add: addBookmarkAction_def so look)
  moreover have "store_after (removeBookmarkAction (Some clerkId) db c) = db"
    by (simp add: removeBookmarkAction_def so look)
  moreover have "outcome (getBookmarksAction None db) = Inl (new_Error msg_login_required)"
    by (simp add: getBookmarksAction_def signed_out_def new_Error_def)
  ultimately show ?thesis
    using look msg_user_not_found_distinct by simp
qed

text \<open>
  C10. For every input string that is empty or consists only of whitespace,
  \<open>addBookmarkAction\<close> and \<open>removeBookmarkAction\<close> throw the validation error
  \<open>msg_id_required\<close> having made no call at all, neither to \<open>auth\<close> nor to the store, and
  the store is unchanged, whoever the session belongs to.
\<close>

theorem blank_contentId_rejected_first:
  assumes "list_all is_js_whitespace contentId"
  shows "addBookmarkAction clerkUserId now db contentId =
           \<lparr> outcome = Inl (new_Error msg_id_required), store_after = db, calls = [] \<rparr> \<and>
         removeBookmarkAction clerkUserId db contentId =
           \<lparr> outcome = Inl (new_Error msg_id_required), store_after = db, calls = [] \<rparr>"
proof -
  have "invalid_contentId contentId"
    using assms by (simp add: invalid_contentId_iff)
  then show ?thesis
    by (simp add: addBookmarkAction_def removeBookmarkAction_def new_Error_def)
qed

theorem addBookmark_duplicate_witness:
  "addBookmark
     \<lparr> users = [\<lparr> users_id = 1, clerk_id = ascii ''user_2abc'' \<rparr>],
       bookmarks = [\<lparr> bookmark_id = 7, user_id = 1, content_id = ascii ''125266'', created_at = 100 \<rparr>],
       next_id = 8 \<rparr> 200 1 (ascii ''125266'')
     = (Inl (new_Error msg_duplicate),
        \<lparr> users = [\<lparr> users_id = 1, clerk_id = ascii ''user_2abc'' \<rparr>],
          bookmarks = [\<lparr> bookmark_id = 7, user_id = 1, content_id = ascii ''125266'', created_at = 100 \<rparr>],
          next_id = 8 \<rparr>) \<and>
   (\<exists>bs. getBookmarks
           (snd (addBookmark
             (snd (addBookmark
                \<lparr> users = [\<lparr> users_id = 1, clerk_id = ascii ''user_2abc'' \<rparr>], bookmarks = [],
                  next_id = 0 \<rparr> 100 1 (ascii ''125266'')))
             200 1 (ascii ''125266''))) 1 = Inr bs \<and>
         length (filter (\<lambda>b. content_id b = ascii ''125266'') bs) = 1)"
proof -
  let ?full = "\<lparr> users = [\<lparr> users_id = 1, clerk_id = ascii ''user_2abc'' \<rparr>],
       bookmarks = [\<lparr> bookmark_id = 7, user_id = 1, content_id = ascii ''125266'', created_at = 100 \<rparr>],
       next_id = 8 \<rparr>"
  let ?empty = "\<lparr> users = [\<lparr> users_id = 1, clerk_id = ascii ''user_2abc'' \<rparr>], bookmarks = [],
                  next_id = 0 \<rparr>"
  have h1: "has_bookmark ?full 1 (ascii ''125266'')"
    by (simp add: has_bookmark_def)
  have h2: "unique_user_bookmark ?empty \<and> has_user ?empty 1"
    by (simp add: unique_user_bookmark_def has_user_def)
  from addBookmark_duplicate[of ?full 1 "ascii ''125266''" 200 100 200] h1
  have a: "addBookmark ?full 200 1 (ascii ''125266'') = (Inl (new_Error msg_duplicate), ?full)"
    by blast
  from addBookmark_duplicate[of ?empty 1 "ascii ''125266''" 200 100 200] h2
  have b: "\<exists>bs. getBookmarks (snd (addBookmark (snd (addBookmark ?empty 100 1 (ascii ''125266'')))
             200 1 (ascii ''125266''))) 1 = Inr bs \<and>
         length (filter (\<lambda>b. content_id b = ascii ''125266'') bs) = 1"
    by blast
  from a b show ?thesis by blast
qed

theorem removeBookmark_idempotent_witness:
  "\<not> has_bookmark \<lparr> users = [\<lparr> users_id = 1, clerk_id = ascii ''user_2abc'' \<rparr>], bookmarks = [],
                    next_id = 0 \<rparr> 1 (ascii ''125266'') \<and>
   removeBookmark \<lparr> users = [\<lparr> users_id = 1, clerk_id = ascii ''user_2abc'' \<rparr>], bookmarks = [],
                    next_id = 0 \<rparr> 1 (ascii ''125266'')
     = (Inr \<lparr> success = True \<rparr>,
        \<lparr> users = [\<lparr> users_id = 1, clerk_id = ascii ''user_2abc'' \<rparr>], bookmarks = [],
          next_id = 0 \<rparr>)"
proof -
  let ?empty = "\<lparr> users = [\<lparr> users_id = 1, clerk_id = ascii ''user_2abc'' \<rparr>], bookmarks = [],
                  next_id = 0 \<rparr>"
  have h: "\<not> has_bookmark ?empty 1 (ascii ''125266'')"
    by (simp add: has_bookmark_def)
  with removeBookmark_idempotent[of ?empty 1 "ascii ''125266''"] show ?thesis
    by blast
qed

theorem getBookmarks_latest_first_witness:
  "filter (\<lambda>b. user_id b = 2)
     [\<lparr> bookmark_id = 7, user_id = 1, content_id = ascii ''125266'', created_at = 100 \<rparr>] = [] \<and>
   getBookmarks
     \<lparr> users = [\<lparr> users_id = 1, clerk_id = ascii ''user_2abc'' \<rparr>,
                \<lparr> users_id = 2, clerk_id = ascii ''user_2xyz'' \<rparr>],
       bookmarks = [\<lparr> bookmark_id = 7, user_id = 1, content_id = ascii ''125266'', created_at = 100 \<rparr>],
       next_id = 8 \<rparr> 2 = Inr []"
proof -
  let ?db = "\<lparr> users = [\<lparr> users_id = 1, clerk_id = ascii ''user_2abc'' \<rparr>,
                \<lparr> users_id = 2, clerk_id = ascii ''user_2xyz'' \<rparr>],
       bookmarks = [\<lparr> bookmark_id = 7, user_id = 1, content_id = ascii ''125266'', created_at = 100 \<rparr>],
       next_id = 8 \<rparr>"
  have h: "filter (\<lambda>b. user_id b = 2) (bookmarks ?db) = []"
    by simp
  with getBookmarks_latest_first[of ?db 2] have "getBookmarks ?db 2 = Inr []"
    by blast
  with h show ?thesis by simp
qed

theorem unsynced_user_is_distinct_condition_witness:
  "ascii ''user_2new'' \<noteq> [] \<and>
   filter (\<lambda>r. clerk_id r = ascii ''user_2new'') [\<lparr> users_id = 1, clerk_id = ascii ''user_2abc'' \<rparr>] = [] \<and>
   \<not> invalid_contentId (ascii ''125266'') \<and>
   addBookmarkAction (Some (ascii ''user_2new'')) 100
     \<lparr> users = [\<lparr> users_id = 1, clerk_id = ascii ''user_2abc'' \<rparr>], bookmarks = [], next_id = 0 \<rparr>
     (ascii ''125266'') =
       \<lparr> outcome = Inl (new_Error msg_user_not_found),
         store_after =
           \<lparr> users = [\<lparr> users_id = 1, clerk_id = ascii ''user_2abc'' \<rparr>], bookmarks = [], next_id = 0 \<rparr>,
         calls = [Call_auth, Call_getSupabaseUserId] \<rparr>"
proof -
  let ?db = "\<lparr> users = [\<lparr> users_id = 1, clerk_id = ascii ''user_2abc'' \<rparr>], bookmarks = [], next_id = 0 \<rparr>"
  have h1: "ascii ''user_2new'' \<noteq> []" by (simp add: ascii_def)
  have h2: "filter (\<lambda>r. clerk_id r = ascii ''user_2new'') (users ?db) = []"
    by (simp add: ascii_def)
  have h3: "\<not> invalid_contentId (ascii ''125266'')"
    by (simp add: invalid_contentId_def trim_def is_js_whitespace_def ascii_def)
  from unsynced_user_is_distinct_condition[OF h1 h2, of "ascii ''125266''" 100] h3
  have "addBookmarkAction (Some (ascii ''user_2new'')) 100 ?db (ascii ''125266'') =
       \<lparr> outcome = Inl (new_Error msg_user_not_found), store_after = ?db,
         calls = [Call_auth, Call_getSupabaseUserId] \<rparr>"
    by blast
  with h1 h2 h3 show ?thesis by simp
qed

theorem blank_contentId_rejected_first_witness:
  "list_all is_js_whitespace [0x20, 0x09, 0x3000] \<and>
   addBookmarkAction (Some (ascii ''user_2abc'')) 100
     \<lparr> users = [\<lparr> users_id = 1, clerk_id = ascii ''user_2abc'' \<rparr>], bookmarks = [], next_id = 0 \<rparr>
     [0x20, 0x09, 0x3000] =
       \<lparr> outcome = Inl (new_Error msg_id_required),
         store_after =
           \<lparr> users = [\<lparr> users_id = 1, clerk_id = ascii ''user_2abc'' \<rparr>], bookmarks = [], next_id = 0 \<rparr>,
         calls = [] \<rparr>"
proof -
  have h: "list_all is_js_whitespace [0x20, 0x09, 0x3000]"
    by (simp add: is_js_whitespace_def)
  from blank_contentId_rejected_first[OF h] h show ?thesis by blast
qed

section \<open>Properties of the item normalization\<close>

lemma transformItems_truthy_single:
  "truthy v \<Longrightarrow> \<not> (\<exists>xs. v = JArray xs) \<Longrightarrow> transformItems v = transformItems (JArray [v])"
  by (cases v) (simp_all add: transformItems_def)

text \<open>
  The list page normalises: a single object gives the one-element list that the array
  holding it gives, and an absent field gives the empty list.
\<close>

lemma transformItems_object_as_array:
  "transformItems (JObject kvs) = transformItems (JArray [JObject kvs])"
  "transformItems (JObject kvs) = Inr [tour_item_of (JObject kvs)]"
  "transformItems JUndefined = Inr []"
  by (simp_all add: transformItems_def)

lemma fetchTours_items_object_as_array:
  "response_item r1 = JObject kvs \<Longrightarrow> response_item r2 = JArray [JObject kvs] \<Longrightarrow>
   fetchTours_items r1 = fetchTours_items r2"
  by (simp add: transformItems_def fetchTours_items_def)

lemma fetchTours_items_absent:
  "response_item r = JUndefined \<Longrightarrow> fetchTours_items r = Inr []"
  by (simp add: fetchTours_items_def)

text \<open>
  The callers of \<open>detailCommon2\<close> do not: a single object has no \<open>length\<close> and no element
  \<open>0\<close>, so it passes the emptiness test and \<open>items[0]\<close> is \<open>undefined\<close>.
\<close>

lemma single_object_first:
  assumes "map_of kvs (ascii ''length'') = None" and "map_of kvs (ascii ''0'') = None"
  shows "\<not> no_items (JObject kvs)" and "js_first (JObject kvs) = JUndefined"
  using assms by (simp_all add: no_items_def)

lemma PlaceDetailPage_single_object:
  assumes "contentId \<noteq> []" and "trim contentId \<noteq> []"
      and "detailCommon2 api (JString contentId) = Inr r" and "\<not> nullish r"
      and "response_item r = JObject kvs"
      and "map_of kvs (ascii ''length'') = None" and "map_of kvs (ascii ''0'') = None"
  shows "PlaceDetailPage tn api contentId = Throws type_error"
  using assms by (simp add: PlaceDetailPage_def single_object_first)

lemma tour_branch_single_object:
  assumes "detailCommon2 api (JString (content_id b)) = Inr r" and "\<not> nullish r"
      and "response_item r = JObject kvs"
      and "map_of kvs (ascii ''length'') = None" and "map_of kvs (ascii ''0'') = None"
  shows "tour_branch api b = None"
  using assms by (simp add: tour_branch_def single_object_first)

text \<open>
  C5. A single result object in the items field should count as the one-element
  collection of the array form, and an absent field as the empty collection. The list page
  does this (\<open>transformItems\<close>, lemmas above). The callers of \<open>detailCommon2\<close> do not:
  for the same provider response, once with the object and once with the array holding it,
  \<open>fetchTours_items\<close> gives the same one-element list, but the detail page throws a
  \<open>TypeError\<close> on the object where it renders the array form, and the bookmarks page
  drops the tour of the object where it keeps that of the array form.
\<close>

theorem detail_callers_single_object:
  "fetchTours_items (response_with example_item) = Inr [tour_item_of example_item] \<and>
   fetchTours_items (response_with (JArray [example_item])) = Inr [tour_item_of example_item] \<and>
   PlaceDetailPage tn (example_common_api example_item) (ascii ''1'') = Throws type_error \<and>
   PlaceDetailPage tn (example_common_api (JArray [example_item])) (ascii ''1'')
     = Rendered (tour_detail_of example_item) None None \<and>
   tour_branch (example_common_api example_item) (example_bookmark 7 ''1'' 100) = None \<and>
   tour_branch (example_common_api (JArray [example_item])) (example_bookmark 7 ''1'' 100)
     = Some (tour_item_of_detail example_item)"
proof -
  have i: "response_item (response_with v) = v" for v
    by (simp add: response_item_def response_with_def opt_get_def ascii_def)
  have e: "response_item (JObject []) = JUndefined"
    by (simp add: response_item_def opt_get_def)
  have n: "\<not> nullish (response_with v)" for v
    by (simp add: response_with_def)
  have id1: "ascii ''1'' \<noteq> []" "trim (ascii ''1'') \<noteq> []"
    by (simp_all add: trim_def is_js_whitespace_def ascii_def)
  obtain kvs where kvs: "example_item = JObject kvs"
      "map_of kvs (ascii ''length'') = None" "map_of kvs (ascii ''0'') = None"
    by (simp add: example_item_def ascii_def)
  have c: "detailCommon2 (example_common_api v) q = Inr (response_with v)" for v q
    by (simp add: example_common_api_def)
  have f1: "fetchTours_items (response_with example_item) = Inr [tour_item_of example_item]"
    unfolding fetchTours_items_def i by (simp add: transformItems_def example_item_def)
  have f2: "fetchTours_items (response_with (JArray [example_item]))
              = Inr [tour_item_of example_item]"
    unfolding fetchTours_items_def i by (simp add: transformItems_def example_item_def)
  have p1: "PlaceDetailPage tn (example_common_api example_item) (ascii ''1'') = Throws type_error"
    using PlaceDetailPage_single_object[OF id1 c n _ kvs(2,3)] i[of example_item] kvs(1)
    by simp
  have p2: "PlaceDetailPage tn (example_common_api (JArray [example_item])) (ascii ''1'')
              = Rendered (tour_detail_of example_item) None None"
    unfolding PlaceDetailPage_def
    by (simp add: id1 c n i e no_items_def some_items_def intro_branch_def images_branch_def
          example_common_api_def example_item_def)
  have t1: "tour_branch (example_common_api example_item) (example_bookmark 7 ''1'' 100) = None"
    using tour_branch_single_object[OF c n _ kvs(2,3)] i[of example_item] kvs(1)
    by simp
  have t2: "tour_branch (example_common_api (JArray [example_item])) (example_bookmark 7 ''1'' 100)
              = Some (tour_item_of_detail example_item)"
    unfolding tour_branch_def by (simp add: c n i no_items_def example_item_def)
  show ?thesis
    unfolding f1 f2 p1 p2 t1 t2 by simp
qed

section \<open>Properties of the fan-out of the pages\<close>

subsection \<open>The branches of the detail page\<close>








subsection \<open>The branches of the bookmarks page\<close>









end
